(* ===== verification/Prelude.thy ===== *)
theory Prelude
  imports Complex_Main "HOL-Library.Code_Target_Numeral"
begin

section \<open>Prelude: shared vocabulary and generic lemmas\<close>

text \<open>
  The vocabulary every component theory of the development shares: the rule
  collections the component proofs extend, the error monad written out as a plain
  function on sums (the JavaScript code throws; the model returns \<open>Inl\<close>), the
  association lists that model JavaScript objects, and the generic lemmas on
  lists and association lists that the components' proofs use through \<open>simp\<close>.
\<close>

named_theorems js_simps "evaluation rules of the JavaScript value model"
named_theorems store_simps "evaluation rules of the credential store operations"

type_synonym 'v alist = "(string \<times> 'v) list"

subsection \<open>Exceptions as sums\<close>

text \<open>
  \<open>sbind r f\<close> runs \<open>f\<close> on the value of \<open>r\<close> and propagates an exception
  (\<open>Inl\<close>) unchanged: the sequencing of two JavaScript statements of which the
  first may throw.
\<close>

definition sbind :: "'e + 'a \<Rightarrow> ('a \<Rightarrow> 'e + 'b) \<Rightarrow> 'e + 'b" where
  "sbind r f = (case r of Inl e \<Rightarrow> Inl e | Inr a \<Rightarrow> f a)"

subsection \<open>Association lists as JavaScript objects\<close>

text \<open>
  Assigning a string-keyed property of a JavaScript object overwrites the value in
  place when the key exists and adds the key last otherwise: insertion order is
  what \<open>JSON.stringify\<close> prints.
\<close>

fun alist_set :: "'v alist \<Rightarrow> string \<Rightarrow> 'v \<Rightarrow> 'v alist" where
  "alist_set [] k v = [(k, v)]"
| "alist_set ((k', v') # kvs) k v =
     (if k' = k then (k, v) # kvs else (k', v') # alist_set kvs k v)"

subsection \<open>Lemmas on exceptions as sums\<close>

lemma sbind_Inl [simp]: "sbind (Inl e) f = Inl e"
  by (simp add: sbind_def)

lemma sbind_Inr [simp]: "sbind (Inr a) f = f a"
  by (simp add: sbind_def)

lemma sbind_eq_Inr:
  "sbind r f = Inr b \<longleftrightarrow> (\<exists>a. r = Inr a \<and> f a = Inr b)"
  by (cases r) simp_all

lemma sbind_eq_Inl:
  "sbind r f = Inl e \<longleftrightarrow> r = Inl e \<or> (\<exists>a. r = Inr a \<and> f a = Inl e)"
  by (cases r) simp_all

subsection \<open>Lemmas on association lists\<close>

lemma map_of_alist_set [simp]:
  "map_of (alist_set kvs k v) = (map_of kvs)(k \<mapsto> v)"
  by (induction kvs) (auto simp: fun_eq_iff)

lemma keys_alist_set:
  "map fst (alist_set kvs k v) =
     (if k \<in> set (map fst kvs) then map fst kvs else map fst kvs @ [k])"
proof (induction kvs)
  case Nil
  then show ?case by simp
next
  case (Cons kv kvs)
  then show ?case by (cases kv) auto
qed

lemma distinct_alist_set [simp]:
  "distinct (map fst (alist_set kvs k v)) = distinct (map fst kvs)"
  by (simp add: keys_alist_set)

lemma set_alist_set_subset:
  "set (alist_set kvs k v) \<subseteq> insert (k, v) (set kvs)"
  by (induction kvs) (auto split: if_splits)

lemma alist_set_values:
  assumes "\<forall>kv\<in>set kvs. P (snd kv)" "P v"
  shows "\<forall>kv\<in>set (alist_set kvs k v). P (snd kv)"
  using assms set_alist_set_subset [of kvs k v] by fastforce

lemma alist_set_same [simp]:
  "map_of kvs k = Some v \<Longrightarrow> alist_set kvs k v = kvs"
  by (induction kvs) (auto split: if_splits)

lemma alist_set_twice [simp]:
  "alist_set (alist_set kvs k v) k w = alist_set kvs k w"
  by (induction kvs) auto

subsection \<open>Counting new elements\<close>

lemma card_insert_diff:
  assumes "finite E"
  shows "card (insert x E - N) = (if x \<in> N then 0 else 1) + card (E - insert x N)"
proof (cases "x \<in> N")
  case True
  then have "insert x E - N = E - insert x N" by blast
  with True show ?thesis by (simp only: if_True add_0)
next
  case False
  then have e: "insert x E - N = insert x (E - insert x N)" by blast
  have "finite (E - insert x N)" using assms by (rule finite_Diff)
  then have "card (insert x (E - insert x N)) = Suc (card (E - insert x N))"
    by (rule card_insert_disjoint) blast
  with e False show ?thesis by (simp only: if_False)
qed

subsection \<open>Lists\<close>

text \<open>
  \<open>find\<close> after the first element with a property is overwritten by another one
  that has it, and \<open>find\<close> past a prefix that has no such element.
\<close>

lemma find_update_first:
  assumes "i < length xs" "P (xs ! i)" "\<forall>j<i. \<not> P (xs ! j)" "P y"
  shows "find P (xs[i := y]) = Some y"
  using assms
proof (induction xs arbitrary: i)
  case Nil
  then show ?case by simp
next
  case (Cons x xs)
  show ?case
  proof (cases i)
    case 0
    with Cons.prems show ?thesis by simp
  next
    case (Suc k)
    with Cons.prems(3) have "\<not> P x" and "\<forall>j<k. \<not> P (xs ! j)" by auto
    with Cons.IH [of k] Cons.prems Suc show ?thesis by simp
  qed
qed

lemma find_update_other:
  "\<not> P (xs ! i) \<Longrightarrow> \<not> P y \<Longrightarrow> find P (xs[i := y]) = find P xs"
proof (induction xs arbitrary: i)
  case Nil
  then show ?case by simp
next
  case (Cons x xs)
  then show ?case by (cases i) auto
qed

lemma find_snoc_fail: "\<not> P y \<Longrightarrow> find P (xs @ [y]) = find P xs"
  by (induction xs) auto

lemma find_append_none:
  "\<not> (\<exists>x\<in>set xs. P x) \<Longrightarrow> find P (xs @ ys) = find P ys"
  by (induction xs) auto

end
