(* ===== verification/Json.thy ===== *)
theory Json
  imports Prelude
begin

section \<open>JavaScript values, as the two scripts use them\<close>

text \<open>
  Both scripts under \<open>src/src/\<close> work on the value \<open>JSON.parse\<close> returns for the
  credential store and mutate it with JavaScript property reads and assignments.
  This theory models those values and the few language operations the scripts
  apply to them:
  \<^item> \<open>jsv\<close>: a JavaScript value as it lives in memory. A JSON document is a
    \<open>jsv\<close> without built-ins whose arrays carry no named properties; an array in
    memory may carry named properties (an assignment \<open>arr.k = v\<close> creates one),
    which \<open>JSON.stringify\<close> does not print. \<open>JBuiltin n\<close> is the inherited
    built-in member \<open>n\<close> of a prototype (\<open>({}).constructor\<close>, \<open>"".trim\<close>).
    \<open>undefined\<close> is not a value of the type: a read that yields \<open>undefined\<close>
    returns \<open>None\<close>.
  \<^item> Numbers are reals: the scripts only add, multiply and round, and the
    values involved are far below the range where doubles lose integers. NaN
    appears only where a conversion produces it, as \<open>None\<close> of \<open>real option\<close>.
  \<^item> Strings are byte strings (\<open>char list\<close>).
  \<^item> Objects are association lists with distinct keys, in insertion order.
  Property access on \<open>undefined\<close> and \<open>null\<close> and assignment to a property of a
  primitive throw \<open>TypeError\<close> (the scripts are ES modules, hence strict code).
  A freshly parsed document is a tree (no two paths reach one object), so an
  assignment through a path of property reads is modelled by rebuilding the path.
\<close>

datatype js_error = TypeError | RangeError

datatype jsv =
    JNull
  | JBool bool
  | JNum real
  | JStr string
  | JArr "jsv list" "jsv alist"
  | JObj "jsv alist"
  | JBuiltin string

subsection \<open>Truthiness\<close>

text \<open>\<open>!v\<close> and \<open>v || d\<close> test ToBoolean; \<open>None\<close> is \<open>undefined\<close>.\<close>

fun js_truthy :: "jsv option \<Rightarrow> bool" where
  "js_truthy None = False"
| "js_truthy (Some JNull) = False"
| "js_truthy (Some (JBool b)) = b"
| "js_truthy (Some (JNum n)) = (n \<noteq> 0)"
| "js_truthy (Some (JStr s)) = (s \<noteq> [])"
| "js_truthy (Some (JArr xs ps)) = True"
| "js_truthy (Some (JObj kvs)) = True"
| "js_truthy (Some (JBuiltin b)) = True"

subsection \<open>Property reads\<close>

text \<open>
  The members every object inherits from \<open>Object.prototype\<close>, and those that
  arrays, strings and numbers add through their own prototypes. A read of a key
  that is no own property finds these.
\<close>

definition object_proto_keys :: "string list" where
  "object_proto_keys =
     [''constructor'', ''hasOwnProperty'', ''isPrototypeOf'', ''propertyIsEnumerable'',
      ''toLocaleString'', ''toString'', ''valueOf'', ''__proto__'', ''__defineGetter__'',
      ''__defineSetter__'', ''__lookupGetter__'', ''__lookupSetter__'']"

definition array_proto_keys :: "string list" where
  "array_proto_keys =
     [''at'', ''concat'', ''copyWithin'', ''entries'', ''every'', ''fill'', ''filter'',
      ''find'', ''findIndex'', ''findLast'', ''findLastIndex'', ''flat'', ''flatMap'',
      ''forEach'', ''includes'', ''indexOf'', ''join'', ''keys'', ''lastIndexOf'', ''map'',
      ''pop'', ''push'', ''reduce'', ''reduceRight'', ''reverse'', ''shift'', ''slice'',
      ''some'', ''sort'', ''splice'', ''toReversed'', ''toSorted'', ''toSpliced'',
      ''unshift'', ''values'', ''with'']"

definition string_proto_keys :: "string list" where
  "string_proto_keys =
     [''at'', ''charAt'', ''charCodeAt'', ''codePointAt'', ''concat'', ''endsWith'',
      ''includes'', ''indexOf'', ''isWellFormed'', ''lastIndexOf'', ''localeCompare'',
      ''match'', ''matchAll'', ''normalize'', ''padEnd'', ''padStart'', ''repeat'',
      ''replace'', ''replaceAll'', ''search'', ''slice'', ''split'', ''startsWith'',
      ''substring'', ''toLocaleLowerCase'', ''toLocaleUpperCase'', ''toLowerCase'',
      ''toUpperCase'', ''toWellFormed'', ''trim'', ''trimEnd'', ''trimStart'']"

definition number_proto_keys :: "string list" where
  "number_proto_keys = [''toExponential'', ''toFixed'', ''toPrecision'']"

definition proto_get :: "string list \<Rightarrow> string \<Rightarrow> jsv option" where
  "proto_get ks k = (if k \<in> set ks then Some (JBuiltin k) else None)"

text \<open>
  A canonical array index: the decimal numeral of a number below \<open>2^32 - 1\<close>
  without leading zeros.
\<close>

definition array_index :: "string \<Rightarrow> nat option" where
  "array_index s =
     (let n = foldl (\<lambda>n c. 10 * n + (of_char c - 48)) 0 s
      in if s \<noteq> [] \<and> set s \<subseteq> set ''0123456789'' \<and> (s = ''0'' \<or> hd s \<noteq> CHR ''0'')
            \<and> n < 4294967295
         then Some n else None)"

text \<open>
  \<open>js_get v k\<close> is \<open>v[k]\<close> for a receiver that is neither \<open>undefined\<close> nor
  \<open>null\<close>: own properties first, then the prototype's members. The members of
  built-in functions themselves are not tracked.
\<close>

fun js_get :: "jsv \<Rightarrow> string \<Rightarrow> jsv option" where
  "js_get (JObj kvs) k =
     (case map_of kvs k of Some v \<Rightarrow> Some v | None \<Rightarrow> proto_get object_proto_keys k)"
| "js_get (JArr xs ps) k =
     (if k = ''length'' then Some (JNum (of_nat (length xs)))
      else case array_index k of
        Some i \<Rightarrow> (if i < length xs then Some (xs ! i) else None)
      | None \<Rightarrow> (case map_of ps k of
          Some v \<Rightarrow> Some v
        | None \<Rightarrow> proto_get (array_proto_keys @ object_proto_keys) k))"
| "js_get (JStr s) k =
     (if k = ''length'' then Some (JNum (of_nat (length s)))
      else case array_index k of
        Some i \<Rightarrow> (if i < length s then Some (JStr [s ! i]) else None)
      | None \<Rightarrow> proto_get (string_proto_keys @ object_proto_keys) k)"
| "js_get (JNum n) k = proto_get (number_proto_keys @ object_proto_keys) k"
| "js_get (JBool b) k = proto_get object_proto_keys k"
| "js_get JNull k = None"
| "js_get (JBuiltin b) k = None"

text \<open>\<open>e.k\<close>: \<open>TypeError\<close> when \<open>e\<close> is \<open>undefined\<close> or \<open>null\<close>.\<close>

definition js_member :: "jsv option \<Rightarrow> string \<Rightarrow> js_error + jsv option" where
  "js_member v k =
     (case v of None \<Rightarrow> Inl TypeError | Some JNull \<Rightarrow> Inl TypeError | Some x \<Rightarrow> Inr (js_get x k))"

text \<open>\<open>e?.k\<close>: optional chaining yields \<open>undefined\<close> on \<open>undefined\<close> and \<open>null\<close>.\<close>

definition js_chain :: "jsv option \<Rightarrow> string \<Rightarrow> jsv option" where
  "js_chain v k = (case v of None \<Rightarrow> None | Some JNull \<Rightarrow> None | Some x \<Rightarrow> js_get x k)"

subsection \<open>Property assignment\<close>

text \<open>
  \<open>v.k = w\<close> in strict code, for the named keys the scripts assign (never an array
  index or \<open>length\<close>): objects and arrays get an own property; \<open>null\<close> and the
  primitives throw \<open>TypeError\<close>. An assignment to a built-in function object lands
  on a shared object the model does not track.
\<close>

fun js_put :: "jsv \<Rightarrow> string \<Rightarrow> jsv \<Rightarrow> js_error + jsv" where
  "js_put (JObj kvs) k w = Inr (JObj (alist_set kvs k w))"
| "js_put (JArr xs ps) k w = Inr (JArr xs (alist_set ps k w))"
| "js_put (JBuiltin b) k w = Inr (JBuiltin b)"
| "js_put JNull k w = Inl TypeError"
| "js_put (JBool b) k w = Inl TypeError"
| "js_put (JNum n) k w = Inl TypeError"
| "js_put (JStr s) k w = Inl TypeError"

subsection \<open>Reads and assignments through a path\<close>

text \<open>
  \<open>js_path v [k1, ..., kn]\<close> is the expression \<open>v.k1. ... .kn\<close>: every receiver
  must be neither \<open>undefined\<close> nor \<open>null\<close>, the last read may give
  \<open>undefined\<close>.
\<close>

fun js_path :: "jsv \<Rightarrow> string list \<Rightarrow> js_error + jsv option" where
  "js_path v [] = Inr (Some v)"
| "js_path v (k # ks) =
     sbind (js_member (Some v) k)
       (\<lambda>c. case ks of [] \<Rightarrow> Inr c
              | _ \<Rightarrow> (case c of None \<Rightarrow> Inl TypeError | Some c' \<Rightarrow> js_path c' ks))"

text \<open>
  \<open>modify_at v ks f\<close> runs the statement \<open>f\<close> on the object \<open>v.k1. ... .kn\<close>,
  which the statement mutates in place. The document is a tree, so the mutated
  object is written back along the path; for the keys the scripts use, every
  object on the path is an own property of its parent, so the write-back puts
  each key back at its position.
\<close>

fun modify_at :: "jsv \<Rightarrow> string list \<Rightarrow> (jsv \<Rightarrow> js_error + jsv) \<Rightarrow> js_error + jsv" where
  "modify_at v [] f = f v"
| "modify_at v (k # ks) f =
     sbind (js_member (Some v) k)
       (\<lambda>c. case c of
          None \<Rightarrow> Inl TypeError
        | Some c' \<Rightarrow> sbind (modify_at c' ks f) (\<lambda>c''. js_put v k c''))"

subsection \<open>What \<open>JSON.stringify\<close> keeps\<close>

text \<open>
  \<open>JSON.stringify\<close> prints an array's elements only (named properties are
  dropped), leaves out object properties whose value is a function, and prints a
  function inside an array as \<open>null\<close>. \<open>to_json v\<close> is the document that
  parsing the printed text gives back.
\<close>

fun is_builtin :: "jsv \<Rightarrow> bool" where
  "is_builtin (JBuiltin b) = True"
| "is_builtin v = False"

fun to_json :: "jsv \<Rightarrow> jsv" where
  "to_json (JArr xs ps) = JArr (map to_json xs) []"
| "to_json (JObj kvs) =
     JObj (map (\<lambda>kv. (fst kv, to_json (snd kv)))
             (filter (\<lambda>kv. \<not> is_builtin (snd kv)) kvs))"
| "to_json (JBuiltin b) = JNull"
| "to_json JNull = JNull"
| "to_json (JBool b) = JBool b"
| "to_json (JNum n) = JNum n"
| "to_json (JStr s) = JStr s"

text \<open>A JSON document: no built-ins, no named array properties, distinct keys.\<close>

fun is_json :: "jsv \<Rightarrow> bool" where
  "is_json (JArr xs ps) = (ps = [] \<and> (\<forall>x\<in>set xs. is_json x))"
| "is_json (JObj kvs) = (distinct (map fst kvs) \<and> (\<forall>kv\<in>set kvs. is_json (snd kv)))"
| "is_json (JBuiltin b) = False"
| "is_json JNull = True"
| "is_json (JBool b) = True"
| "is_json (JNum n) = True"
| "is_json (JStr s) = True"

text \<open>
  Every object the scripts build or parse has distinct keys, and so does the named
  part of every array: \<open>wk\<close> (well keyed) is that invariant of memory values.
\<close>

fun wk :: "jsv \<Rightarrow> bool" where
  "wk (JArr xs ps) =
     (distinct (map fst ps) \<and> (\<forall>x\<in>set xs. wk x) \<and> (\<forall>kv\<in>set ps. wk (snd kv)))"
| "wk (JObj kvs) = (distinct (map fst kvs) \<and> (\<forall>kv\<in>set kvs. wk (snd kv)))"
| "wk (JBuiltin b) = True"
| "wk JNull = True"
| "wk (JBool b) = True"
| "wk (JNum n) = True"
| "wk (JStr s) = True"

subsection \<open>Strings\<close>

text \<open>
  \<open>s.split(c)\<close> for a one-character separator: the pieces between the
  occurrences of \<open>c\<close>, at least one (\<open>"".split("#")\<close> is \<open>[""]\<close>).
\<close>

fun js_split :: "char \<Rightarrow> string \<Rightarrow> string list" where
  "js_split c [] = [[]]"
| "js_split c (x # xs) =
     (if x = c then [] # js_split c xs
      else (case js_split c xs of [] \<Rightarrow> [[x]] | w # ws \<Rightarrow> (x # w) # ws))"

text \<open>\<open>ws.join(sep)\<close> on strings: the pieces with \<open>sep\<close> between each two.\<close>

fun js_join :: "string \<Rightarrow> string list \<Rightarrow> string" where
  "js_join sep [] = []"
| "js_join sep [w] = w"
| "js_join sep (w # v # ws) = w @ sep @ js_join sep (v # ws)"

text \<open>
  \<open>s.trim()\<close> strips white space and line terminators at both ends; on byte
  strings these are tab, line feed, vertical tab, form feed, carriage return and
  space (the non-ASCII white space of JavaScript has no one-byte form).
\<close>

definition js_space :: "char \<Rightarrow> bool" where
  "js_space c \<longleftrightarrow> of_char c \<in> {9, 10, 11, 12, 13, 32 :: nat}"

definition js_trim :: "string \<Rightarrow> string" where
  "js_trim s = rev (dropWhile js_space (rev (dropWhile js_space s)))"


subsection \<open>Lemmas\<close>

lemmas js_access_defs [js_simps] = js_member_def js_chain_def proto_get_def

text \<open>Splitting at the separator and joining with it are inverse.\<close>

lemma js_split_no_sep [js_simps]: "c \<notin> set s \<Longrightarrow> js_split c s = [s]"
  by (induction s) auto

lemma js_split_sep [js_simps]: "c \<notin> set a \<Longrightarrow> js_split c (a @ c # b) = a # js_split c b"
  by (induction a) auto

lemma js_split_nonempty: "js_split c s \<noteq> []"
  by (induction s) (auto split: list.split)

lemma js_split_join: "js_join [c] (js_split c s) = s"
proof (induction s)
  case Nil
  then show ?case by simp
next
  case (Cons x xs)
  obtain w ws where split: "js_split c xs = w # ws"
    using js_split_nonempty by (cases "js_split c xs") auto
  show ?case
  proof (cases "x = c")
    case True
    with Cons.IH split show ?thesis by simp
  next
    case False
    with Cons.IH split show ?thesis by (cases ws) auto
  qed
qed

lemma js_split_pieces: "w \<in> set (js_split c s) \<Longrightarrow> c \<notin> set w"
proof (induction s arbitrary: w)
  case Nil
  then show ?case by simp
next
  case (Cons x xs)
  then show ?case by (auto split: if_splits list.splits)
qed

text \<open>Printing and parsing back is the identity on JSON documents.\<close>

lemma is_json_wk: "is_json v \<Longrightarrow> wk v"
  by (induction v) auto

lemma is_json_not_builtin: "is_json v \<Longrightarrow> \<not> is_builtin v"
  by (cases v) auto

lemma to_json_id [simp]: "is_json v \<Longrightarrow> to_json v = v"
proof (induction v)
  case (JArr xs ps)
  then show ?case by (auto intro: map_idI)
next
  case (JObj kvs)
  then have "filter (\<lambda>kv. \<not> is_builtin (snd kv)) kvs = kvs"
    by (auto simp: is_json_not_builtin)
  with JObj show ?case by (auto intro!: map_idI)
qed simp_all

lemma is_json_to_json: "wk v \<Longrightarrow> is_json (to_json v)"
proof (induction v)
  case (JObj kvs)
  have "distinct (map fst (filter (\<lambda>kv. \<not> is_builtin (snd kv)) kvs))"
    using JObj.prems by (simp add: distinct_map_filter)
  with JObj show ?case by (auto simp: comp_def)
next
  case (JBuiltin b)
  then show ?case by simp
qed auto

lemma wk_js_put: "wk v \<Longrightarrow> wk w \<Longrightarrow> js_put v k w = Inr v' \<Longrightarrow> wk v'"
  by (cases v) (auto simp: alist_set_values [where P = wk])

lemma js_get_wk: "wk v \<Longrightarrow> js_get v k = Some w \<Longrightarrow> wk w"
  by (cases v) (auto simp: proto_get_def split: option.splits if_splits dest: map_of_SomeD)


text \<open>Reads of a key that is neither an index, nor \<open>length\<close>, nor a prototype member.\<close>

lemma js_get_obj_plain:
  "k \<notin> set object_proto_keys \<Longrightarrow> js_get (JObj kvs) k = map_of kvs k"
  by (simp add: proto_get_def split: option.split)

lemma js_get_arr_plain:
  "k \<noteq> ''length'' \<Longrightarrow> array_index k = None \<Longrightarrow> k \<notin> set array_proto_keys
   \<Longrightarrow> k \<notin> set object_proto_keys \<Longrightarrow> js_get (JArr ys ps) k = map_of ps k"
  by (simp add: proto_get_def split: option.split)

end
