(* ===== verification/Store.thy ===== *)
theory Store
  imports Json
begin

section \<open>The credential store file\<close>

text \<open>
  The store is one file, \<open>~/.local/share/opencode/auth.json\<close>. Both scripts read
  it whole with \<open>readFileSync\<close> and \<open>JSON.parse\<close>; the enrollment script
  (\<open>src/src/add-account.ts\<close>, \<open>loadAuth\<close> and \<open>saveAuth\<close>) writes it whole
  with \<open>JSON.stringify(data, null, 2)\<close>; the usage report
  (\<open>src/src/usage.ts\<close>, \<open>loadAuth\<close>) only reads it.

  The file is modelled by what parsing its text gives: it is missing, it exists but
  cannot be read, its text is no JSON (\<open>JSON.parse\<close> throws), or it holds a JSON
  document. The parser and the printer belong to the platform; the model takes
  their contract, that parsing the printed text of a value gives \<open>to_json\<close> of it.
  A write either replaces the document or fails (no permission, or the directory
  does not exist: \<open>writeFileSync\<close> creates no directories); the scripts do not
  write through a temporary file.
\<close>

datatype store_file = Missing | Unreadable | Corrupt | Holds jsv

record fs_state =
  store :: store_file
  writable :: bool

text \<open>The document both load functions of the enrollment script fall back to.\<close>

definition empty_auth :: jsv where
  "empty_auth =
     JObj [(''anthropic'', JObj [(''multiAccounts'', JObj [(''accounts'', JArr [] [])])])]"

text \<open>
  \<open>loadAuth\<close> of \<open>add-account.ts\<close>: a missing file, a read error and a parse
  error all give the empty document; nothing is thrown.
\<close>

definition load_auth :: "store_file \<Rightarrow> jsv" where
  "load_auth f = (case f of Holds d \<Rightarrow> d | _ \<Rightarrow> empty_auth)"

text \<open>\<open>saveAuth\<close>: the printed document replaces the file, or the write throws.\<close>

datatype io_error = Write_Error

definition save_auth :: "jsv \<Rightarrow> fs_state \<Rightarrow> io_error + fs_state" where
  "save_auth d st =
     (if writable st then Inr (st\<lparr>store := Holds (to_json d)\<rparr>) else Inl Write_Error)"

text \<open>
  \<open>loadAuth\<close> of \<open>usage.ts\<close> returns \<open>data.anthropic?.multiAccounts\<close>. A missing
  or unreadable file, unparsable text and a document that is \<open>null\<close> (its
  \<open>.anthropic\<close> throws) all end in the \<open>catch\<close>, which reports the error and
  exits with status 1.
\<close>

datatype load_error = Read_Failed | Parse_Failed | Access_Failed

definition usage_load_auth :: "store_file \<Rightarrow> load_error + jsv option" where
  "usage_load_auth f =
     (case f of
        Missing \<Rightarrow> Inl Read_Failed
      | Unreadable \<Rightarrow> Inl Read_Failed
      | Corrupt \<Rightarrow> Inl Parse_Failed
      | Holds d \<Rightarrow>
          (case js_member (Some d) ''anthropic'' of
             Inl e \<Rightarrow> Inl Access_Failed
           | Inr a \<Rightarrow> Inr (js_chain a ''multiAccounts'')))"

subsection \<open>Lemmas\<close>

lemma load_auth_simps [store_simps]:
  "load_auth (Holds d) = d"
  "f \<in> {Missing, Unreadable, Corrupt} \<Longrightarrow> load_auth f = empty_auth"
  by (auto simp: load_auth_def)

lemma is_json_empty_auth [simp]: "is_json empty_auth"
  by (simp add: empty_auth_def)

text \<open>Reading back what was saved gives the printed document.\<close>

lemma save_load_auth:
  assumes "save_auth d st = Inr st'"
  shows "load_auth (store st') = to_json d" and "writable st' = writable st"
  using assms by (auto simp: save_auth_def load_auth_def split: if_splits)

lemma save_auth_fails: "save_auth d st = Inl e \<longleftrightarrow> \<not> writable st \<and> e = Write_Error"
  by (auto simp: save_auth_def)

end
