(* ===== verification/Accounts.thy ===== *)
theory Accounts
  imports Store
begin

section \<open>Upserting an account into the store document\<close>

text \<open>
  After a successful token exchange, \<open>main\<close> of \<open>src/src/add-account.ts\<close>
  (lines 106--130) loads the store, repairs its shape on the path
  \<open>anthropic.multiAccounts.accounts\<close>, looks the account name up with
  \<open>findIndex\<close>, builds the account record and either overwrites the entry found
  or appends it. This theory models those statements on the loaded document
  (\<open>persist\<close>), states what they promise on a document of the expected shape
  (\<open>obj_path\<close>, \<open>obj_update\<close>, \<open>upsert_list\<close>), and proves that the
  statements implement that promise, together with the invariant that account
  names stay distinct and the refinement of the account list to a map from names.
\<close>

subsection \<open>Definitions\<close>

text \<open>The response fields the code reads, as its type assertion declares them.\<close>

record token_response =
  access_token :: string
  refresh_token :: string
  expires_in :: real

record account =
  name :: string
  access :: string
  refresh :: string
  expires :: real

text \<open>Lines 117--122: the record, its expiry \<open>Date.now() + expires_in * 1000\<close>.\<close>

definition make_account :: "string \<Rightarrow> token_response \<Rightarrow> int \<Rightarrow> account" where
  "make_account nm tok now =
     \<lparr>name = nm, access = access_token tok, refresh = refresh_token tok,
      expires = of_int now + expires_in tok * 1000\<rparr>"

definition account_json :: "account \<Rightarrow> jsv" where
  "account_json a =
     JObj [(''name'', JStr (name a)), (''access'', JStr (access a)),
           (''refresh'', JStr (refresh a)), (''expires'', JNum (expires a))]"

text \<open>Lines 109--111: \<open>if (!v.k) v.k = d;\<close>\<close>

definition ensure_prop :: "string \<Rightarrow> jsv \<Rightarrow> jsv \<Rightarrow> js_error + jsv" where
  "ensure_prop k d v =
     sbind (js_member (Some v) k) (\<lambda>c. if js_truthy c then Inr v else js_put v k d)"

text \<open>
  Lines 113--115: \<open>accounts.findIndex((a) => a.name === accountName)\<close>. The
  callback reads \<open>a.name\<close>, which throws on a \<open>null\<close> entry; the result \<open>-1\<close>
  is \<open>None\<close>. \<open>findIndex\<close> exists on arrays only: on any other value the
  call throws.
\<close>

fun find_by_name :: "string \<Rightarrow> jsv list \<Rightarrow> js_error + nat option" where
  "find_by_name nm [] = Inr None"
| "find_by_name nm (a # as) =
     sbind (js_member (Some a) ''name'')
       (\<lambda>v. if v = Some (JStr nm) then Inr (Some 0)
            else sbind (find_by_name nm as) (\<lambda>r. Inr (map_option Suc r)))"

definition accounts_find_index :: "string \<Rightarrow> jsv option \<Rightarrow> js_error + nat option" where
  "accounts_find_index nm v =
     (case v of Some (JArr xs ps) \<Rightarrow> find_by_name nm xs | _ \<Rightarrow> Inl TypeError)"

text \<open>Lines 124--130: overwrite the entry found in place, or \<open>push\<close>.\<close>

definition upsert_list :: "nat option \<Rightarrow> 'a \<Rightarrow> 'a list \<Rightarrow> 'a list" where
  "upsert_list i x xs = (case i of Some j \<Rightarrow> xs[j := x] | None \<Rightarrow> xs @ [x])"

definition upsert_at :: "nat option \<Rightarrow> jsv \<Rightarrow> jsv \<Rightarrow> js_error + jsv" where
  "upsert_at i acc v =
     (case v of JArr xs ps \<Rightarrow> Inr (JArr (upsert_list i acc xs) ps) | _ \<Rightarrow> Inl TypeError)"

definition accounts_path :: "string list" where
  "accounts_path = [''anthropic'', ''multiAccounts'', ''accounts'']"

text \<open>
  Lines 109--130 on the loaded document \<open>auth\<close>: the repaired and updated
  document, and whether an existing entry was overwritten (the "Updated existing
  account" message) rather than a new one appended ("Added new account").
\<close>

definition persist :: "string \<Rightarrow> jsv \<Rightarrow> jsv \<Rightarrow> js_error + (jsv \<times> bool)" where
  "persist nm acc auth =
     sbind (ensure_prop ''anthropic'' (JObj []) auth) (\<lambda>a1.
     sbind (modify_at a1 [''anthropic'']
              (ensure_prop ''multiAccounts'' (JObj [(''accounts'', JArr [] [])]))) (\<lambda>a2.
     sbind (modify_at a2 [''anthropic'', ''multiAccounts''] (ensure_prop ''accounts'' (JArr [] [])))
       (\<lambda>a3.
     sbind (js_path a3 accounts_path) (\<lambda>accs.
     sbind (accounts_find_index nm accs) (\<lambda>i.
     sbind (modify_at a3 accounts_path (upsert_at i acc)) (\<lambda>a4.
     Inr (a4, i \<noteq> None)))))))"

subsection \<open>The abstract view\<close>

text \<open>
  The name an entry is found under: its \<open>name\<close> property when that is a string.
  \<open>name_index\<close> is the first position of a name, \<open>acct_names\<close> the names in
  store order, \<open>acct_lookup\<close> the account list read as a map from names (the
  first entry of a name wins, as with \<open>findIndex\<close>).
\<close>

definition name_str :: "jsv \<Rightarrow> string option" where
  "name_str a =
     (case a of JNull \<Rightarrow> None
      | _ \<Rightarrow> (case js_get a ''name'' of Some (JStr s) \<Rightarrow> Some s | _ \<Rightarrow> None))"

fun name_index :: "string \<Rightarrow> jsv list \<Rightarrow> nat option" where
  "name_index nm [] = None"
| "name_index nm (a # as) =
     (if name_str a = Some nm then Some 0 else map_option Suc (name_index nm as))"

fun acct_names :: "jsv list \<Rightarrow> string list" where
  "acct_names [] = []"
| "acct_names (a # as) =
     (case name_str a of Some s \<Rightarrow> s # acct_names as | None \<Rightarrow> acct_names as)"

definition acct_lookup :: "jsv list \<Rightarrow> string \<Rightarrow> jsv option" where
  "acct_lookup xs nm = find (\<lambda>a. name_str a = Some nm) xs"

text \<open>
  A document of the expected shape: objects down a path. \<open>obj_path\<close> reads the
  path, \<open>obj_update\<close> replaces the value at its end and changes nothing else.
\<close>

fun obj_path :: "jsv \<Rightarrow> string list \<Rightarrow> jsv option" where
  "obj_path v [] = Some v"
| "obj_path (JObj kvs) (k # ks) =
     (case map_of kvs k of Some c \<Rightarrow> obj_path c ks | None \<Rightarrow> None)"
| "obj_path v (k # ks) = None"

fun obj_update :: "jsv \<Rightarrow> string list \<Rightarrow> jsv \<Rightarrow> jsv" where
  "obj_update v [] w = w"
| "obj_update (JObj kvs) (k # ks) w =
     (case map_of kvs k of
        Some c \<Rightarrow> JObj (alist_set kvs k (obj_update c ks w))
      | None \<Rightarrow> JObj kvs)"
| "obj_update v (k # ks) w = v"


text \<open>Where the usage report reads its statistics.\<close>

definition usage_path :: "string list" where
  "usage_path = [''anthropic'', ''multiAccounts'', ''usage'']"

subsection \<open>Lemmas: the entry lookup\<close>

text \<open>The keys of the store are plain keys on objects and on arrays.\<close>

lemma store_keys_plain:
  assumes "k \<in> {''anthropic'', ''multiAccounts'', ''accounts'', ''usage'', ''name''}"
  shows "k \<notin> set object_proto_keys" and "k \<noteq> ''length''" and "array_index k = None"
    and "k \<notin> set array_proto_keys"
  using assms by (auto simp: object_proto_keys_def array_proto_keys_def array_index_def)

lemma js_get_store_keys [js_simps]:
  "js_get (JObj kvs) ''anthropic'' = map_of kvs ''anthropic''"
  "js_get (JObj kvs) ''multiAccounts'' = map_of kvs ''multiAccounts''"
  "js_get (JObj kvs) ''accounts'' = map_of kvs ''accounts''"
  "js_get (JObj kvs) ''name'' = map_of kvs ''name''"
  "js_get (JObj kvs) ''usage'' = map_of kvs ''usage''"
  "js_get (JArr ys ps) ''anthropic'' = map_of ps ''anthropic''"
  "js_get (JArr ys ps) ''multiAccounts'' = map_of ps ''multiAccounts''"
  "js_get (JArr ys ps) ''accounts'' = map_of ps ''accounts''"
  by (simp_all del: js_get.simps add: js_get_obj_plain js_get_arr_plain store_keys_plain)

lemma js_member_nonnull [js_simps]: "v \<noteq> JNull \<Longrightarrow> js_member (Some v) k = Inr (js_get v k)"
  by (cases v) (simp_all add: js_member_def)

lemma name_str_match:
  "a \<noteq> JNull \<Longrightarrow> js_get a ''name'' = Some (JStr nm) \<longleftrightarrow> name_str a = Some nm"
  by (cases a) (auto simp: name_str_def split: option.splits jsv.splits)

text \<open>On a list without \<open>null\<close> entries, \<open>findIndex\<close> finds the first entry of the name.\<close>

lemma find_by_name_index:
  "JNull \<notin> set xs \<Longrightarrow> find_by_name nm xs = Inr (name_index nm xs)"
  by (induction xs) (auto simp: js_member_nonnull name_str_match)

lemma find_by_name_error:
  "find_by_name nm xs = Inl e \<Longrightarrow> e = TypeError \<and> JNull \<in> set xs"
proof (induction xs)
  case Nil
  then show ?case by simp
next
  case (Cons a as)
  show ?case
  proof (cases "a = JNull")
    case True
    with Cons.prems show ?thesis by (simp add: js_member_def)
  next
    case False
    with Cons show ?thesis
      by (auto simp: js_member_nonnull sbind_eq_Inl split: if_splits)
  qed
qed

lemma name_index_Some:
  "name_index nm xs = Some j \<Longrightarrow>
     j < length xs \<and> name_str (xs ! j) = Some nm \<and> (\<forall>i<j. name_str (xs ! i) \<noteq> Some nm)"
proof (induction xs arbitrary: j)
  case Nil
  then show ?case by simp
next
  case (Cons a as)
  then show ?case
    by (cases j) (auto simp: less_Suc_eq_0_disj split: if_splits)
qed

lemma name_index_None: "name_index nm xs = None \<longleftrightarrow> nm \<notin> set (acct_names xs)"
  by (induction xs) (auto split: option.splits)

lemma acct_names_update_same:
  "name_str (xs ! j) = name_str y \<Longrightarrow> acct_names (xs[j := y]) = acct_names xs"
proof (induction xs arbitrary: j)
  case Nil
  then show ?case by simp
next
  case (Cons a as)
  then show ?case by (cases j) (auto split: option.splits)
qed

lemma acct_names_snoc:
  "acct_names (xs @ [y]) = acct_names xs @ (case name_str y of Some s \<Rightarrow> [s] | None \<Rightarrow> [])"
  by (induction xs) (auto split: option.splits)



subsection \<open>Lemmas: paths through objects\<close>

lemma obj_path_snoc:
  "obj_path v (ks @ [k]) = Some c \<Longrightarrow>
     \<exists>kvs. obj_path v ks = Some (JObj kvs) \<and> map_of kvs k = Some c"
proof (induction ks arbitrary: v)
  case Nil
  then show ?case by (cases v) (auto split: option.splits)
next
  case (Cons k' ks)
  then show ?case by (cases v) (auto split: option.splits)
qed

lemma js_path_obj_path: "obj_path v ks = Some c \<Longrightarrow> js_path v ks = Inr (Some c)"
proof (induction ks arbitrary: v)
  case Nil
  then show ?case by simp
next
  case (Cons k ks)
  then obtain kvs c0 where v: "v = JObj kvs" and c0: "map_of kvs k = Some c0"
    and rest: "obj_path c0 ks = Some c"
    by (cases v) (auto split: option.splits)
  then show ?case using Cons.IH [OF rest] by (cases ks) (simp_all add: js_member_def)
qed

lemma modify_at_obj_path:
  "obj_path v ks = Some c \<Longrightarrow> f c = Inr c' \<Longrightarrow> modify_at v ks f = Inr (obj_update v ks c')"
proof (induction ks arbitrary: v)
  case Nil
  then show ?case by simp
next
  case (Cons k ks)
  then obtain kvs c0 where v: "v = JObj kvs" and c0: "map_of kvs k = Some c0"
    and rest: "obj_path c0 ks = Some c"
    by (cases v) (auto split: option.splits)
  with Cons.IH [OF rest Cons.prems(2)] show ?case by (simp add: js_member_def)
qed

lemma obj_update_same: "obj_path v ks = Some c \<Longrightarrow> obj_update v ks c = v"
proof (induction ks arbitrary: v)
  case Nil
  then show ?case by simp
next
  case (Cons k ks)
  then show ?case by (cases v) (auto split: option.splits)
qed

lemma ensure_prop_present:
  "map_of kvs k = Some c \<Longrightarrow> js_truthy (Some c) \<Longrightarrow> ensure_prop k d (JObj kvs) = Inr (JObj kvs)"
  by (simp add: ensure_prop_def js_member_def)

text \<open>Repairing the shape of a document that has it changes nothing.\<close>

lemma ensure_at_present:
  assumes "obj_path v (ks @ [k]) = Some c" "js_truthy (Some c)"
  shows "modify_at v ks (ensure_prop k d) = Inr v"
proof -
  from obj_path_snoc [OF assms(1)] obtain kvs
    where p: "obj_path v ks = Some (JObj kvs)" and c: "map_of kvs k = Some c" by blast
  from ensure_prop_present [OF c assms(2)]
  have "modify_at v ks (ensure_prop k d) = Inr (obj_update v ks (JObj kvs))"
    by (rule modify_at_obj_path [OF p])
  with p show ?thesis by (simp add: obj_update_same)
qed

lemma obj_path_update [simp]:
  "obj_path v ks \<noteq> None \<Longrightarrow> obj_path (obj_update v ks w) ks = Some w"
proof (induction ks arbitrary: v)
  case Nil
  then show ?case by simp
next
  case (Cons k ks)
  then show ?case by (cases v) (auto split: option.splits)
qed

text \<open>An update at one path leaves every path that leaves it untouched.\<close>

lemma obj_path_update_other:
  "k \<noteq> k' \<Longrightarrow>
     obj_path (obj_update v (pre @ k # ks) w) (pre @ k' # ks') = obj_path v (pre @ k' # ks')"
proof (induction pre arbitrary: v)
  case Nil
  then show ?case by (cases v) (auto split: option.splits)
next
  case (Cons p pre)
  then show ?case by (cases v) (auto split: option.splits)
qed

lemma upsert_at_arr [simp]: "upsert_at i acc (JArr xs ps) = Inr (JArr (upsert_list i acc xs) ps)"
  by (simp add: upsert_at_def)

text \<open>
  The count and the map view of the account list after an upsert: one entry more
  exactly for a new name, and the name bound to the new entry.
\<close>

lemma length_upsert:
  "length (upsert_list (name_index nm xs) acc xs) =
     length xs + (if nm \<in> set (acct_names xs) then 0 else 1)"
  by (cases "name_index nm xs") (auto simp: upsert_list_def name_index_None [symmetric])

lemma lookup_upsert:
  assumes "name_str acc = Some nm"
  shows "acct_lookup (upsert_list (name_index nm xs) acc xs) = (acct_lookup xs)(nm \<mapsto> acc)"
proof
  fix nm'
  show "acct_lookup (upsert_list (name_index nm xs) acc xs) nm' = ((acct_lookup xs)(nm \<mapsto> acc)) nm'"
  proof (cases "name_index nm xs")
    case None
    then have "\<not> (\<exists>a\<in>set xs. name_str a = Some nm)"
      by (induction xs) (auto split: if_splits)
    with None assms show ?thesis
      by (auto simp: acct_lookup_def upsert_list_def find_append_none find_snoc_fail)
  next
    case (Some j)
    note j = name_index_Some [OF Some]
    show ?thesis
    proof (cases "nm' = nm")
      case True
      with j assms Some show ?thesis
        by (simp add: acct_lookup_def upsert_list_def find_update_first)
    next
      case False
      with j assms Some show ?thesis
        by (simp add: acct_lookup_def upsert_list_def find_update_other)
    qed
  qed
qed


text \<open>
  Saving a document prints it: the document the next run loads is the one the run
  built exactly when everything in it survives \<open>JSON.stringify\<close>.
\<close>

lemma is_json_obj_update:
  "is_json v \<Longrightarrow> is_json w \<Longrightarrow> is_json (obj_update v ks w)"
proof (induction v ks w rule: obj_update.induct)
  case (2 kvs k ks w)
  show ?case
  proof (cases "map_of kvs k")
    case (Some c)
    with "2.prems" have "is_json c" by (auto dest: map_of_SomeD)
    with "2.IH" [OF Some] "2.prems" have "is_json (obj_update c ks w)" by simp
    with "2.prems" have "\<forall>kv\<in>set (alist_set kvs k (obj_update c ks w)). is_json (snd kv)"
      by (intro alist_set_values) auto
    with "2.prems" Some show ?thesis by simp
  qed (use "2.prems" in simp)
qed simp_all

lemma upsert_list_all:
  "\<forall>x\<in>set xs. P x \<Longrightarrow> P acc \<Longrightarrow> \<forall>x\<in>set (upsert_list i acc xs). P x"
  by (auto simp: upsert_list_def split: option.splits dest: set_update_subset_insert [THEN subsetD])

lemma is_json_account [simp]: "is_json (account_json a)"
  by (simp add: account_json_def)

lemma name_str_account [simp]: "name_str (account_json a) = Some (name a)"
  by (simp add: account_json_def name_str_def)

lemma name_make_account [simp]: "name (make_account nm tok now) = nm"
  by (simp add: make_account_def)

subsection \<open>Theorems\<close>

text \<open>
  The names after an upsert: unchanged when the name was present (its entry is
  overwritten in place), the new name appended otherwise.
\<close>

lemma upsert_names:
  assumes "name_str acc = Some nm"
  shows "acct_names (upsert_list (name_index nm xs) acc xs) =
           (if nm \<in> set (acct_names xs) then acct_names xs else acct_names xs @ [nm])"
proof (cases "name_index nm xs")
  case None
  then have "nm \<notin> set (acct_names xs)" by (simp add: name_index_None)
  with None assms show ?thesis by (simp add: upsert_list_def acct_names_snoc)
next
  case (Some j)
  with name_index_Some [OF Some] assms have "name_str (xs ! j) = name_str acc" by simp
  with Some show ?thesis
    by (simp add: upsert_list_def acct_names_update_same name_index_None [symmetric])
qed

text \<open>
  C4: An upsert adds one entry when the name is new and none when it is present:
  re-enrolling a name leaves the number of accounts unchanged.
\<close>

lemma upsert_length:
  "length (upsert_list (name_index nm xs) acc xs) =
     length xs + (if nm \<in> set (acct_names xs) then 0 else 1)"
  by (rule length_upsert)

text \<open>
  C3: Invariant of the account list: if the names in the store are distinct, they
  are distinct after the upsert of an account (lines 113--130).
\<close>

lemma upsert_distinct_names:
  assumes "distinct (acct_names xs)" "name_str acc = Some nm"
  shows "distinct (acct_names (upsert_list (name_index nm xs) acc xs))"
  using assms by (simp add: upsert_names)

text \<open>
  C2: Refinement: read as a map from names, the account list after the upsert is
  the map before it with the name bound to the new entry (a whole replacement, no
  merge of fields); every other name keeps its entry.
\<close>

lemma upsert_lookup:
  assumes "name_str acc = Some nm"
  shows "acct_lookup (upsert_list (name_index nm xs) acc xs) = (acct_lookup xs)(nm \<mapsto> acc)"
  using assms by (rule lookup_upsert)

text \<open>
  Functional correctness of lines 109--130: on a document whose
  \<open>anthropic.multiAccounts.accounts\<close> is an array of non-\<open>null\<close> entries, the
  repair statements change nothing and the document that is saved is the old one
  with the account list upserted; the flag says whether the name was present.
\<close>

lemma persist_on_shape:
  assumes shape: "obj_path auth accounts_path = Some (JArr xs ps)"
    and nonull: "JNull \<notin> set xs"
  shows "persist nm acc auth =
           Inr (obj_update auth accounts_path (JArr (upsert_list (name_index nm xs) acc xs) ps),
                name_index nm xs \<noteq> None)"
proof -
  have p3: "obj_path auth ([''anthropic'', ''multiAccounts''] @ [''accounts'']) = Some (JArr xs ps)"
    using shape by (simp add: accounts_path_def)
  then obtain k3 where "obj_path auth [''anthropic'', ''multiAccounts''] = Some (JObj k3)"
    by (blast dest: obj_path_snoc)
  then have p2: "obj_path auth ([''anthropic''] @ [''multiAccounts'']) = Some (JObj k3)" by simp
  then obtain k2 where "obj_path auth [''anthropic''] = Some (JObj k2)"
    by (blast dest: obj_path_snoc)
  then obtain k1 where auth: "auth = JObj k1" and a: "map_of k1 ''anthropic'' = Some (JObj k2)"
    by (cases auth) (auto split: option.splits)
  have s1: "ensure_prop ''anthropic'' (JObj []) auth = Inr auth"
    using auth a by (simp add: ensure_prop_present)
  have s2: "modify_at auth [''anthropic'']
              (ensure_prop ''multiAccounts'' (JObj [(''accounts'', JArr [] [])])) = Inr auth"
    by (rule ensure_at_present [OF p2]) simp
  have s3: "modify_at auth [''anthropic'', ''multiAccounts''] (ensure_prop ''accounts'' (JArr [] [])) = Inr auth"
    by (rule ensure_at_present [OF p3]) simp
  have s4: "js_path auth accounts_path = Inr (Some (JArr xs ps))"
    by (rule js_path_obj_path [OF shape])
  have s5: "accounts_find_index nm (Some (JArr xs ps)) = Inr (name_index nm xs)"
    using nonull by (simp add: accounts_find_index_def find_by_name_index)
  have s6: "modify_at auth accounts_path (upsert_at (name_index nm xs) acc) =
              Inr (obj_update auth accounts_path (JArr (upsert_list (name_index nm xs) acc xs) ps))"
    by (rule modify_at_obj_path [OF shape]) simp
  show ?thesis by (simp only: persist_def s1 s2 s3 s4 s5 s6 sbind_Inr)
qed

text \<open>
  C1: On a store document whose \<open>anthropic.multiAccounts.accounts\<close> is an array
  without \<open>null\<close> entries, the statements of lines 109--130 succeed; the document
  they leave holds the account list with the new entry overwriting the first entry
  of its name, or appended when the name is new; the usage statistics beside the
  list and every other top-level key are untouched; and the "updated" flag is set
  exactly when the name was present.
\<close>

theorem persist_upserts:
  assumes "obj_path auth accounts_path = Some (JArr xs ps)" "JNull \<notin> set xs"
  shows "\<exists>auth'. persist nm acc auth = Inr (auth', nm \<in> set (acct_names xs))
           \<and> obj_path auth' accounts_path = Some (JArr (upsert_list (name_index nm xs) acc xs) ps)
           \<and> obj_path auth' usage_path = obj_path auth usage_path
           \<and> (\<forall>k. k \<noteq> ''anthropic'' \<longrightarrow> obj_path auth' [k] = obj_path auth [k])"
proof -
  let ?auth' = "obj_update auth accounts_path (JArr (upsert_list (name_index nm xs) acc xs) ps)"
  have run: "persist nm acc auth = Inr (?auth', nm \<in> set (acct_names xs))"
    using persist_on_shape [OF assms] by (simp add: name_index_None)
  have list: "obj_path ?auth' accounts_path = Some (JArr (upsert_list (name_index nm xs) acc xs) ps)"
    using assms(1) by simp
  have usage: "obj_path ?auth' usage_path = obj_path auth usage_path"
    using obj_path_update_other [of "''accounts''" "''usage''" auth "[''anthropic'', ''multiAccounts'']" "[]"]
    by (simp add: accounts_path_def usage_path_def)
  have other: "\<forall>k. k \<noteq> ''anthropic'' \<longrightarrow> obj_path ?auth' [k] = obj_path auth [k]"
    using obj_path_update_other [of "''anthropic''" _ auth "[]" "[''multiAccounts'', ''accounts'']"]
    by (simp add: accounts_path_def)
  from run list usage other show ?thesis by blast
qed


subsection \<open>Witnesses\<close>

text \<open>
  The claims applied to a store that holds one account \<open>max\<close> and an empty usage
  map, when an account \<open>pro\<close> is enrolled next to it.
\<close>

theorem persist_upserts_witness:
  "obj_path (JObj [(''anthropic'', JObj [(''multiAccounts'',
       JObj [(''accounts'', JArr [JObj [(''name'', JStr ''max'')]] []), (''usage'', JObj [])])])])
     accounts_path = Some (JArr [JObj [(''name'', JStr ''max'')]] [])
   \<and> JNull \<notin> set [JObj [(''name'', JStr ''max'')]]
   \<and> (\<exists>auth'. persist ''pro'' (JObj [(''name'', JStr ''pro'')])
         (JObj [(''anthropic'', JObj [(''multiAccounts'',
            JObj [(''accounts'', JArr [JObj [(''name'', JStr ''max'')]] []), (''usage'', JObj [])])])])
       = Inr (auth', False)
       \<and> obj_path auth' accounts_path =
           Some (JArr [JObj [(''name'', JStr ''max'')], JObj [(''name'', JStr ''pro'')]] [])
       \<and> obj_path auth' usage_path = Some (JObj []))"
proof -
  let ?a = "JObj [(''anthropic'', JObj [(''multiAccounts'',
       JObj [(''accounts'', JArr [JObj [(''name'', JStr ''max'')]] []), (''usage'', JObj [])])])]"
  let ?xs = "[JObj [(''name'', JStr ''max'')]]"
  have h1: "obj_path ?a accounts_path = Some (JArr ?xs [])" by (simp add: accounts_path_def)
  have h2: "JNull \<notin> set ?xs" by simp
  have "''pro'' \<notin> set (acct_names ?xs)" and "name_index ''pro'' ?xs = None"
    by (simp_all add: name_str_def)
  with persist_upserts [OF h1 h2, of "''pro''" "JObj [(''name'', JStr ''pro'')]"] h1 h2
  show ?thesis by (auto simp: upsert_list_def usage_path_def)
qed

theorem upsert_lookup_witness:
  "name_str (JObj [(''name'', JStr ''max''), (''access'', JStr ''t2'')]) = Some ''max''
   \<and> acct_lookup (upsert_list (name_index ''max'' [JObj [(''name'', JStr ''max''), (''access'', JStr ''t1'')]])
        (JObj [(''name'', JStr ''max''), (''access'', JStr ''t2'')])
        [JObj [(''name'', JStr ''max''), (''access'', JStr ''t1'')]]) ''max''
     = Some (JObj [(''name'', JStr ''max''), (''access'', JStr ''t2'')])"
proof -
  have h: "name_str (JObj [(''name'', JStr ''max''), (''access'', JStr ''t2'')]) = Some ''max''"
    by (simp add: name_str_def)
  from upsert_lookup [OF h, of "[JObj [(''name'', JStr ''max''), (''access'', JStr ''t1'')]]"] h
  show ?thesis by simp
qed

theorem upsert_distinct_names_witness:
  "distinct (acct_names [JObj [(''name'', JStr ''max'')]])
   \<and> name_str (JObj [(''name'', JStr ''pro'')]) = Some ''pro''
   \<and> distinct (acct_names (upsert_list (name_index ''pro'' [JObj [(''name'', JStr ''max'')]])
        (JObj [(''name'', JStr ''pro'')]) [JObj [(''name'', JStr ''max'')]]))"
proof -
  have h1: "distinct (acct_names [JObj [(''name'', JStr ''max'')]])" by (simp add: name_str_def)
  have h2: "name_str (JObj [(''name'', JStr ''pro'')]) = Some ''pro''" by (simp add: name_str_def)
  from upsert_distinct_names [OF h1 h2] h1 h2 show ?thesis by simp
qed

end
