(* ===== verification/Enroll.thy ===== *)
theory Enroll
  imports Accounts
begin

section \<open>The enrollment script\<close>

text \<open>
  \<open>main\<close> of \<open>src/src/add-account.ts\<close> (lines 35--135) as one run over its
  inputs: the command-line argument, the PKCE pair the library returns, the line the
  operator pastes, the platform's URL parser, the token endpoint's answer to the
  posted body, the clock, and the file system. A run ends in an outcome, having
  printed (at most) one authorization URL, posted (at most) one token request and
  left the file system in a final state. \<open>process.exit(1)\<close> ends the process with
  status 1; an exception that escapes \<open>main\<close> is caught by
  \<open>main().catch(console.error)\<close>, which prints it, and the process then ends
  with status 0.
\<close>

subsection \<open>Definitions\<close>

definition client_id :: string where
  "client_id = ''9d1c250a-e61b-44d9-88ed-5944d1962f5e''"

definition redirect_uri :: string where
  "redirect_uri = ''https://console.anthropic.com/oauth/code/callback''"

definition oauth_scope :: string where
  "oauth_scope = ''org:create_api_key user:profile user:inference''"

record pkce_pair =
  verifier :: string
  challenge :: string

type_synonym params = "(string \<times> string) list"

text \<open>
  \<open>URLSearchParams.set(k, v)\<close>: the first pair named \<open>k\<close> takes the value and
  the later ones are removed; without such a pair, the pair is appended.
\<close>

fun params_set :: "params \<Rightarrow> string \<Rightarrow> string \<Rightarrow> params" where
  "params_set [] k v = [(k, v)]"
| "params_set ((k', v') # ps) k v =
     (if k' = k then (k, v) # filter (\<lambda>p. fst p \<noteq> k) ps else (k', v') # params_set ps k v)"

text \<open>Lines 48--56: the query of the authorization URL, set on a URL without one.\<close>

definition authorize_params :: "pkce_pair \<Rightarrow> params" where
  "authorize_params p =
     (let q = params_set [] ''code'' ''true'';
          q = params_set q ''client_id'' client_id;
          q = params_set q ''response_type'' ''code'';
          q = params_set q ''redirect_uri'' redirect_uri;
          q = params_set q ''scope'' oauth_scope;
          q = params_set q ''code_challenge'' (challenge p);
          q = params_set q ''code_challenge_method'' ''S256'';
          q = params_set q ''state'' (verifier p)
      in q)"

text \<open>
  A parsed URL, as far as the script reads it: its decoded query pairs in order.
  \<open>searchParams.get(k)\<close> is the value of the first pair named \<open>k\<close>, or \<open>null\<close>.
\<close>

record url =
  url_params :: params

definition search_get :: "url \<Rightarrow> string \<Rightarrow> string option" where
  "search_get u k = map_of (url_params u) k"

text \<open>
  Lines 66--76: \<open>new URL\<close> (the parser \<open>parse\<close>; \<open>None\<close> is a throw) and the
  composite \<open>code#state\<close>; pasted text that is no URL is taken as the code.
\<close>

definition extract_code :: "(string \<Rightarrow> url option) \<Rightarrow> string \<Rightarrow> string" where
  "extract_code parse s =
     (case parse s of
        None \<Rightarrow> s
      | Some u \<Rightarrow>
          (let c = (case search_get u ''code'' of Some v \<Rightarrow> v | None \<Rightarrow> []);
               st = (case search_get u ''state'' of Some v \<Rightarrow> v | None \<Rightarrow> [])
           in if c \<noteq> [] \<and> st \<noteq> [] then c @ ''#'' @ st else c))"

text \<open>
  Lines 85--96: the posted body. \<open>splits[1]\<close> is \<open>undefined\<close> when the code has
  no \<open>#\<close>, and \<open>JSON.stringify\<close> then leaves the \<open>state\<close> field out.
\<close>

definition token_request :: "string \<Rightarrow> pkce_pair \<Rightarrow> jsv" where
  "token_request code p =
     (let splits = js_split CHR ''#'' code
      in JObj ([(''code'', JStr (splits ! 0))]
               @ (if 1 < length splits then [(''state'', JStr (splits ! 1))] else [])
               @ [(''grant_type'', JStr ''authorization_code''), (''client_id'', JStr client_id),
                  (''redirect_uri'', JStr redirect_uri), (''code_verifier'', JStr (verifier p))]))"

text \<open>
  The token endpoint's answer: the request fails (\<open>fetch\<close> rejects), or a
  response with its status, its body text and the parsed body (\<open>None\<close> when
  \<open>response.json()\<close> rejects).
\<close>

datatype http_result = Network_Error | Response int string "token_response option"

definition response_ok :: "int \<Rightarrow> bool" where
  "response_ok s \<longleftrightarrow> 200 \<le> s \<and> s \<le> 299"

datatype failure = Net_Failure | Body_Not_Json | Script_Error js_error | Write_Failure

datatype outcome =
    Usage_Error
  | No_Code
  | Exchange_Failed int string
  | Rejected failure
  | Added string
  | Updated string

record enroll_input =
  argv_name :: "string option"
  pkce :: pkce_pair
  pasted :: string
  parse_url :: "string \<Rightarrow> url option"
  token_endpoint :: "jsv \<Rightarrow> http_result"
  now_ms :: int

record enroll_run =
  outcome :: outcome
  shown_url :: "params option"
  requests :: "jsv list"
  final :: fs_state

text \<open>\<open>process.exit(1)\<close> for the three reported failures; a rejection ends with 0.\<close>

fun exit_status :: "outcome \<Rightarrow> int" where
  "exit_status Usage_Error = 1"
| "exit_status No_Code = 1"
| "exit_status (Exchange_Failed s t) = 1"
| "exit_status (Rejected f) = 0"
| "exit_status (Added nm) = 0"
| "exit_status (Updated nm) = 0"

text \<open>
  Lines 107--134 on the document \<open>auth\<close> that \<open>loadAuth\<close> returned: the
  upsert, then the save. A second process may write the file between the load and
  the save: the save writes this document whatever the file holds by then.
\<close>

definition commit_tokens ::
  "string \<Rightarrow> token_response \<Rightarrow> int \<Rightarrow> jsv \<Rightarrow> fs_state \<Rightarrow> outcome \<times> fs_state" where
  "commit_tokens nm tok now auth st =
     (case persist nm (account_json (make_account nm tok now)) auth of
        Inl e \<Rightarrow> (Rejected (Script_Error e), st)
      | Inr (doc, upd) \<Rightarrow>
          (case save_auth doc st of
             Inl e \<Rightarrow> (Rejected Write_Failure, st)
           | Inr st' \<Rightarrow> (if upd then Updated nm else Added nm, st')))"

text \<open>Lines 106--134, after a successful response: load, upsert, save.\<close>

definition store_tokens ::
  "string \<Rightarrow> token_response \<Rightarrow> int \<Rightarrow> fs_state \<Rightarrow> outcome \<times> fs_state" where
  "store_tokens nm tok now st = commit_tokens nm tok now (load_auth (store st)) st"

text \<open>Lines 35--135.\<close>

definition add_account_main :: "enroll_input \<Rightarrow> fs_state \<Rightarrow> enroll_run" where
  "add_account_main inp st =
     (case argv_name inp of
        None \<Rightarrow> \<lparr>outcome = Usage_Error, shown_url = None, requests = [], final = st\<rparr>
      | Some nm \<Rightarrow>
        if nm = [] then \<lparr>outcome = Usage_Error, shown_url = None, requests = [], final = st\<rparr>
        else
          (let p = pkce inp;
               u = authorize_params p;
               code = extract_code (parse_url inp) (js_trim (pasted inp))
           in if code = [] then \<lparr>outcome = No_Code, shown_url = Some u, requests = [], final = st\<rparr>
              else
                (let body = token_request code p
                 in case token_endpoint inp body of
                      Network_Error \<Rightarrow>
                        \<lparr>outcome = Rejected Net_Failure, shown_url = Some u, requests = [body],
                         final = st\<rparr>
                    | Response status text payload \<Rightarrow>
                        if \<not> response_ok status then
                          \<lparr>outcome = Exchange_Failed status text, shown_url = Some u,
                           requests = [body], final = st\<rparr>
                        else
                          (case payload of
                             None \<Rightarrow>
                               \<lparr>outcome = Rejected Body_Not_Json, shown_url = Some u,
                                requests = [body], final = st\<rparr>
                           | Some tok \<Rightarrow>
                               (let (res, st') = store_tokens nm tok (now_ms inp) st
                                in \<lparr>outcome = res, shown_url = Some u, requests = [body],
                                    final = st'\<rparr>)))))"


subsection \<open>Example inputs\<close>

text \<open>
  An operator enrolls \<open>max\<close> and pastes a callback URL that the parser reads as
  \<open>?code=abc&state=xyz\<close>; the endpoint answers with status 200 and a token pair
  valid for an hour.
\<close>

abbreviation demo_tokens :: token_response where
  "demo_tokens \<equiv> \<lparr>access_token = ''A'', refresh_token = ''R'', expires_in = 3600\<rparr>"

abbreviation demo_input :: enroll_input where
  "demo_input \<equiv>
     \<lparr>argv_name = Some ''max'', pkce = \<lparr>verifier = ''V'', challenge = ''C''\<rparr>,
      pasted = ''u'', parse_url = (\<lambda>s. Some \<lparr>url_params = [(''code'', ''abc''), (''state'', ''xyz'')]\<rparr>),
      token_endpoint = (\<lambda>b. Response 200 ''{}'' (Some demo_tokens)), now_ms = 1000\<rparr>"

subsection \<open>Lemmas\<close>

lemma store_tokens_frame:
  "store_tokens nm tok now st = (res, st') \<Longrightarrow> st' = st \<or> res = Added nm \<or> res = Updated nm"
  by (auto simp: store_tokens_def commit_tokens_def split: sum.splits prod.splits if_splits)

lemma store_tokens_outcome:
  "store_tokens nm tok now st = (res, st') \<Longrightarrow> res \<noteq> Usage_Error \<and> res \<noteq> No_Code"
  by (auto simp: store_tokens_def commit_tokens_def split: sum.splits prod.splits if_splits)

lemma store_tokens_shape:
  assumes "obj_path (load_auth (store st)) accounts_path = Some (JArr xs ps)" "JNull \<notin> set xs"
    and "writable st"
  shows "store_tokens nm tok now st =
           (if nm \<in> set (acct_names xs) then Updated nm else Added nm,
            st\<lparr>store := Holds (to_json (obj_update (load_auth (store st)) accounts_path
               (JArr (upsert_list (name_index nm xs) (account_json (make_account nm tok now)) xs) ps)))\<rparr>)"
  using persist_on_shape [OF assms(1,2)] assms(3)
  by (simp add: store_tokens_def commit_tokens_def save_auth_def name_index_None)

text \<open>The run once a code has been extracted: one request, then the answer decides.\<close>

lemma add_account_main_code:
  assumes "argv_name inp = Some nm" "nm \<noteq> []"
    and "extract_code (parse_url inp) (js_trim (pasted inp)) = code" "code \<noteq> []"
  shows "add_account_main inp st =
     (let u = authorize_params (pkce inp); body = token_request code (pkce inp)
      in case token_endpoint inp body of
           Network_Error \<Rightarrow>
             \<lparr>outcome = Rejected Net_Failure, shown_url = Some u, requests = [body], final = st\<rparr>
         | Response status text payload \<Rightarrow>
             if \<not> response_ok status then
               \<lparr>outcome = Exchange_Failed status text, shown_url = Some u, requests = [body],
                final = st\<rparr>
             else (case payload of
                     None \<Rightarrow> \<lparr>outcome = Rejected Body_Not_Json, shown_url = Some u,
                              requests = [body], final = st\<rparr>
                   | Some tok \<Rightarrow>
                       (let (res, st') = store_tokens nm tok (now_ms inp) st
                        in \<lparr>outcome = res, shown_url = Some u, requests = [body], final = st'\<rparr>)))"
  using assms by (simp add: add_account_main_def Let_def)


lemma js_trim_u [simp]: "js_trim ''u'' = ''u''"
  by (simp add: js_trim_def js_space_def)

subsection \<open>Theorems\<close>

text \<open>
  C5: Without an account name, or with an empty one, the script prints its usage
  and exits with status 1, before any network request and without touching the
  store.
\<close>

theorem usage_error_run:
  assumes "argv_name inp = None \<or> argv_name inp = Some []"
  shows "add_account_main inp st =
           \<lparr>outcome = Usage_Error, shown_url = None, requests = [], final = st\<rparr>
         \<and> exit_status Usage_Error = 1"
  using assms by (auto simp: add_account_main_def)

theorem usage_error_run_witness:
  "(argv_name (demo_input\<lparr>argv_name := Some []\<rparr>) = None
      \<or> argv_name (demo_input\<lparr>argv_name := Some []\<rparr>) = Some [])
   \<and> outcome (add_account_main (demo_input\<lparr>argv_name := Some []\<rparr>) \<lparr>store = Missing, writable = True\<rparr>)
       = Usage_Error"
  using usage_error_run [of "demo_input\<lparr>argv_name := Some []\<rparr>" "\<lparr>store = Missing, writable = True\<rparr>"]
  by simp

text \<open>
  C6: A run changes the file system only when it ends by adding or updating an
  account: every failure (usage error, no code, failed or rejected exchange, an
  exception while updating or writing the store) leaves the store as it was.
\<close>

theorem run_store_untouched:
  "final (add_account_main inp st) = st
   \<or> (\<exists>nm. outcome (add_account_main inp st) = Added nm
           \<or> outcome (add_account_main inp st) = Updated nm)"
  by (auto simp: add_account_main_def Let_def
           split: option.splits if_splits http_result.splits prod.splits
           dest: store_tokens_frame)

text \<open>
  C7: A run posts at most one token request, and posts none exactly when it stops
  at the usage error or for want of a code.
\<close>

theorem run_one_request:
  "length (requests (add_account_main inp st)) \<le> 1
   \<and> (requests (add_account_main inp st) = [] \<longleftrightarrow>
        outcome (add_account_main inp st) = Usage_Error
        \<or> outcome (add_account_main inp st) = No_Code)"
  by (auto simp: add_account_main_def Let_def
           split: option.splits if_splits http_result.splits prod.splits
           dest: store_tokens_outcome)

text \<open>
  C8: When the pasted callback URL carries a \<open>code\<close> and a \<open>state\<close> without
  \<open>#\<close>, the token request posts exactly that code and that state, with the
  grant type, client id, redirect URI and the local PKCE verifier. The returned
  \<open>state\<close> is posted as it came back: nothing compares it with the verifier that
  was sent as \<open>state\<close>.
\<close>

theorem callback_request:
  assumes "argv_name inp = Some nm" "nm \<noteq> []"
    and "parse_url inp (js_trim (pasted inp)) = Some u"
    and "search_get u ''code'' = Some c" "search_get u ''state'' = Some s"
    and "c \<noteq> []" "s \<noteq> []" "CHR ''#'' \<notin> set c" "CHR ''#'' \<notin> set s"
  shows "requests (add_account_main inp st) =
           [JObj [(''code'', JStr c), (''state'', JStr s),
                  (''grant_type'', JStr ''authorization_code''), (''client_id'', JStr client_id),
                  (''redirect_uri'', JStr redirect_uri),
                  (''code_verifier'', JStr (verifier (pkce inp)))]]"
proof -
  have code: "extract_code (parse_url inp) (js_trim (pasted inp)) = c @ ''#'' @ s"
    using assms(3-7) by (simp add: extract_code_def)
  have body: "token_request (c @ ''#'' @ s) (pkce inp) =
           JObj [(''code'', JStr c), (''state'', JStr s),
                 (''grant_type'', JStr ''authorization_code''), (''client_id'', JStr client_id),
                 (''redirect_uri'', JStr redirect_uri),
                 (''code_verifier'', JStr (verifier (pkce inp)))]"
    using assms(8,9) by (simp add: token_request_def js_split_sep js_split_no_sep)
  from add_account_main_code [OF assms(1,2) code] body show ?thesis
    by (simp add: Let_def split: http_result.splits option.splits prod.splits)
qed

theorem callback_request_witness:
  "argv_name demo_input = Some ''max'' \<and> ''max'' \<noteq> []
   \<and> parse_url demo_input (js_trim (pasted demo_input)) =
       Some \<lparr>url_params = [(''code'', ''abc''), (''state'', ''xyz'')]\<rparr>
   \<and> search_get \<lparr>url_params = [(''code'', ''abc''), (''state'', ''xyz'')]\<rparr> ''code'' = Some ''abc''
   \<and> search_get \<lparr>url_params = [(''code'', ''abc''), (''state'', ''xyz'')]\<rparr> ''state'' = Some ''xyz''
   \<and> requests (add_account_main demo_input \<lparr>store = Missing, writable = True\<rparr>) =
       [JObj [(''code'', JStr ''abc''), (''state'', JStr ''xyz''),
              (''grant_type'', JStr ''authorization_code''), (''client_id'', JStr client_id),
              (''redirect_uri'', JStr redirect_uri), (''code_verifier'', JStr ''V'')]]"
  using callback_request [of demo_input "''max''" "\<lparr>url_params = [(''code'', ''abc''), (''state'', ''xyz'')]\<rparr>"
      "''abc''" "''xyz''" "\<lparr>store = Missing, writable = True\<rparr>"]
  by (simp add: search_get_def)


text \<open>
  C9: A token response with a status outside 200--299 ends the run with the status
  and the body reported and exit status 1; the store is left exactly as it was.
\<close>

theorem exchange_failed_run:
  assumes "argv_name inp = Some nm" "nm \<noteq> []"
    and "extract_code (parse_url inp) (js_trim (pasted inp)) = code" "code \<noteq> []"
    and "token_endpoint inp (token_request code (pkce inp)) = Response status text payload"
    and "\<not> response_ok status"
  shows "outcome (add_account_main inp st) = Exchange_Failed status text
         \<and> exit_status (outcome (add_account_main inp st)) = 1
         \<and> final (add_account_main inp st) = st"
  using add_account_main_code [OF assms(1-4)] assms(5,6) by (simp add: Let_def)

theorem exchange_failed_run_witness:
  "argv_name (demo_input\<lparr>token_endpoint := (\<lambda>b. Response 400 ''invalid_grant'' None)\<rparr>) = Some ''max''
   \<and> extract_code (parse_url demo_input) (js_trim (pasted demo_input)) = ''abc#xyz''
   \<and> \<not> response_ok 400
   \<and> outcome (add_account_main (demo_input\<lparr>token_endpoint := (\<lambda>b. Response 400 ''invalid_grant'' None)\<rparr>)
        \<lparr>store = Holds empty_auth, writable = True\<rparr>) = Exchange_Failed 400 ''invalid_grant''
   \<and> final (add_account_main (demo_input\<lparr>token_endpoint := (\<lambda>b. Response 400 ''invalid_grant'' None)\<rparr>)
        \<lparr>store = Holds empty_auth, writable = True\<rparr>) = \<lparr>store = Holds empty_auth, writable = True\<rparr>"
proof -
  have c: "extract_code (parse_url demo_input) (js_trim (pasted demo_input)) = ''abc#xyz''"
    by (simp add: extract_code_def search_get_def)
  have r: "\<not> response_ok 400" by (simp add: response_ok_def)
  from exchange_failed_run [of "demo_input\<lparr>token_endpoint := (\<lambda>b. Response 400 ''invalid_grant'' None)\<rparr>"
      "''max''" "''abc#xyz''" 400 "''invalid_grant''" None "\<lparr>store = Holds empty_auth, writable = True\<rparr>"] c r
  show ?thesis by simp
qed

text \<open>
  C10: End to end: after a successful exchange, on a store of the expected shape
  that can be written, the run reports an update when the name was present and an
  addition otherwise, and the file then holds the old document with the account
  list upserted (the record built from the response and the clock).
\<close>

theorem enroll_success:
  assumes "argv_name inp = Some nm" "nm \<noteq> []"
    and "extract_code (parse_url inp) (js_trim (pasted inp)) = code" "code \<noteq> []"
    and "token_endpoint inp (token_request code (pkce inp)) = Response status text (Some tok)"
    and "response_ok status" "writable st"
    and "obj_path (load_auth (store st)) accounts_path = Some (JArr xs ps)" "JNull \<notin> set xs"
  shows "outcome (add_account_main inp st) =
           (if nm \<in> set (acct_names xs) then Updated nm else Added nm)
         \<and> store (final (add_account_main inp st)) =
             Holds (to_json (obj_update (load_auth (store st)) accounts_path
               (JArr (upsert_list (name_index nm xs)
                        (account_json (make_account nm tok (now_ms inp))) xs) ps)))"
  using add_account_main_code [OF assms(1-4)] assms(5,6)
    store_tokens_shape [OF assms(8,9,7), of nm tok "now_ms inp"]
  by (simp add: Let_def)

theorem enroll_success_witness:
  "argv_name demo_input = Some ''max''
   \<and> extract_code (parse_url demo_input) (js_trim (pasted demo_input)) = ''abc#xyz''
   \<and> response_ok 200
   \<and> obj_path (load_auth (Holds empty_auth)) accounts_path = Some (JArr [] [])
   \<and> outcome (add_account_main demo_input \<lparr>store = Holds empty_auth, writable = True\<rparr>) = Added ''max''"
proof -
  have c: "extract_code (parse_url demo_input) (js_trim (pasted demo_input)) = ''abc#xyz''"
    by (simp add: extract_code_def search_get_def)
  have r: "response_ok 200" by (simp add: response_ok_def)
  have p: "obj_path (load_auth (Holds empty_auth)) accounts_path = Some (JArr [] [])"
    by (simp add: load_auth_def empty_auth_def accounts_path_def)
  from enroll_success [of demo_input "''max''" "''abc#xyz''" 200 "''{}''" demo_tokens
      "\<lparr>store = Holds empty_auth, writable = True\<rparr>" "[]" "[]"] c r p
  show ?thesis by simp
qed

text \<open>
  C11: A missing, unreadable or corrupt store does not stop an enrollment: the
  document starts empty, the account is added, and the file then holds a store with
  exactly that account.
\<close>

theorem enroll_fresh_store:
  assumes "argv_name inp = Some nm" "nm \<noteq> []"
    and "extract_code (parse_url inp) (js_trim (pasted inp)) = code" "code \<noteq> []"
    and "token_endpoint inp (token_request code (pkce inp)) = Response status text (Some tok)"
    and "response_ok status" "writable st" "store st \<in> {Missing, Unreadable, Corrupt}"
  shows "outcome (add_account_main inp st) = Added nm
         \<and> store (final (add_account_main inp st)) =
             Holds (JObj [(''anthropic'', JObj [(''multiAccounts'', JObj [(''accounts'',
                      JArr [account_json (make_account nm tok (now_ms inp))] [])])])])"
proof -
  have l: "load_auth (store st) = empty_auth" using assms(8) by (auto simp: load_auth_def)
  have p: "obj_path (load_auth (store st)) accounts_path = Some (JArr [] [])"
    by (simp add: l empty_auth_def accounts_path_def)
  from add_account_main_code [OF assms(1-4)] assms(5,6)
    store_tokens_shape [OF p _ assms(7), of nm tok "now_ms inp"]
  show ?thesis
    by (simp add: Let_def l empty_auth_def accounts_path_def upsert_list_def account_json_def)
qed

theorem enroll_fresh_store_witness:
  "argv_name demo_input = Some ''max''
   \<and> extract_code (parse_url demo_input) (js_trim (pasted demo_input)) = ''abc#xyz''
   \<and> response_ok 200 \<and> Corrupt \<in> {Missing, Unreadable, Corrupt}
   \<and> outcome (add_account_main demo_input \<lparr>store = Corrupt, writable = True\<rparr>) = Added ''max''"
proof -
  have c: "extract_code (parse_url demo_input) (js_trim (pasted demo_input)) = ''abc#xyz''"
    by (simp add: extract_code_def search_get_def)
  have r: "response_ok 200" by (simp add: response_ok_def)
  from enroll_fresh_store [of demo_input "''max''" "''abc#xyz''" 200 "''{}''" demo_tokens
      "\<lparr>store = Corrupt, writable = True\<rparr>"] c r
  show ?thesis by simp
qed

text \<open>
  C12: A store file that holds a JSON array defeats the update: the script assigns
  \<open>anthropic\<close> as a named property of the array, upserts the account below it,
  reports "Added new account", and saves the array, whose named properties
  \<open>JSON.stringify\<close> does not print: the file is unchanged and the account lost.
\<close>

theorem array_store_loses_account:
  assumes "store st = Holds (JArr xs [])" "is_json (JArr xs [])" "writable st"
  shows "store_tokens nm tok now st = (Added nm, st)"
proof -
  have "persist nm (account_json (make_account nm tok now)) (JArr xs []) =
          Inr (JArr xs [(''anthropic'', JObj [(''multiAccounts'', JObj [(''accounts'',
                  JArr [account_json (make_account nm tok now)] [])])])], False)"
    by (simp del: js_get.simps
             add: persist_def ensure_prop_def js_member_def js_get_store_keys accounts_path_def
                  accounts_find_index_def upsert_at_def upsert_list_def)
  with assms have "store_tokens nm tok now st = (Added nm, st\<lparr>store := Holds (JArr (map to_json xs) [])\<rparr>)"
    by (simp add: store_tokens_def commit_tokens_def save_auth_def load_auth_def)
  moreover have "map to_json xs = xs" using assms(2) by (auto intro: map_idI)
  ultimately show ?thesis using assms(1) by simp
qed

theorem array_store_loses_account_witness:
  "store \<lparr>store = Holds (JArr [JNum 1] []), writable = True\<rparr> = Holds (JArr [JNum 1] [])
   \<and> is_json (JArr [JNum 1] []) \<and> writable \<lparr>store = Holds (JArr [JNum 1] []), writable = True\<rparr>
   \<and> store_tokens ''max'' demo_tokens 1000 \<lparr>store = Holds (JArr [JNum 1] []), writable = True\<rparr> =
       (Added ''max'', \<lparr>store = Holds (JArr [JNum 1] []), writable = True\<rparr>)"
  using array_store_loses_account [of "\<lparr>store = Holds (JArr [JNum 1] []), writable = True\<rparr>"
      "[JNum 1]" "''max''" demo_tokens 1000]
  by simp


text \<open>
  C13: When the token request itself fails (\<open>fetch\<close> rejects), the rejection
  escapes \<open>main\<close>, \<open>main().catch(console.error)\<close> prints it, and the process
  ends with status 0, after one request and with the store untouched.
\<close>

theorem network_error_exit_zero:
  assumes "argv_name inp = Some nm" "nm \<noteq> []"
    and "extract_code (parse_url inp) (js_trim (pasted inp)) = code" "code \<noteq> []"
    and "token_endpoint inp (token_request code (pkce inp)) = Network_Error"
  shows "outcome (add_account_main inp st) = Rejected Net_Failure
         \<and> exit_status (outcome (add_account_main inp st)) = 0
         \<and> requests (add_account_main inp st) = [token_request code (pkce inp)]
         \<and> final (add_account_main inp st) = st"
  using add_account_main_code [OF assms(1-4)] assms(5) by (simp add: Let_def)

theorem network_error_exit_zero_witness:
  "argv_name (demo_input\<lparr>token_endpoint := (\<lambda>b. Network_Error)\<rparr>) = Some ''max''
   \<and> extract_code (parse_url demo_input) (js_trim (pasted demo_input)) = ''abc#xyz''
   \<and> exit_status (outcome (add_account_main (demo_input\<lparr>token_endpoint := (\<lambda>b. Network_Error)\<rparr>)
        \<lparr>store = Missing, writable = True\<rparr>)) = 0"
proof -
  have c: "extract_code (parse_url demo_input) (js_trim (pasted demo_input)) = ''abc#xyz''"
    by (simp add: extract_code_def search_get_def)
  from network_error_exit_zero [of "demo_input\<lparr>token_endpoint := (\<lambda>b. Network_Error)\<rparr>"
      "''max''" "''abc#xyz''" "\<lparr>store = Missing, writable = True\<rparr>"] c
  show ?thesis by simp
qed

text \<open>
  C14: A store file that parses but holds \<open>null\<close>, a boolean, a number or a
  string is not treated as a fresh store: after the tokens were obtained, the
  update throws \<open>TypeError\<close>, the store is left as it was, the tokens are lost,
  and the process ends with status 0.
\<close>

theorem primitive_store_rejected:
  assumes "store st = Holds d"
    and "d = JNull \<or> (\<exists>b. d = JBool b) \<or> (\<exists>n. d = JNum n) \<or> (\<exists>t. d = JStr t)"
  shows "store_tokens nm tok now st = (Rejected (Script_Error TypeError), st)
         \<and> exit_status (Rejected (Script_Error TypeError)) = 0"
proof -
  have key: "''anthropic'' \<notin> set object_proto_keys" "''anthropic'' \<notin> set number_proto_keys"
    "''anthropic'' \<notin> set string_proto_keys" "array_index ''anthropic'' = None"
    by (simp_all add: object_proto_keys_def number_proto_keys_def string_proto_keys_def
                      array_index_def)
  from assms(2) have "ensure_prop ''anthropic'' (JObj []) d = Inl TypeError"
    using key by (auto simp: ensure_prop_def js_member_def proto_get_def)
  with assms(1) show ?thesis
    by (simp add: store_tokens_def commit_tokens_def persist_def load_auth_def)
qed

theorem primitive_store_rejected_witness:
  "store \<lparr>store = Holds JNull, writable = True\<rparr> = Holds JNull
   \<and> (JNull = JNull \<or> (\<exists>b. JNull = JBool b) \<or> (\<exists>n. JNull = JNum n) \<or> (\<exists>t. JNull = JStr t))
   \<and> store_tokens ''max'' demo_tokens 1000 \<lparr>store = Holds JNull, writable = True\<rparr> =
       (Rejected (Script_Error TypeError), \<lparr>store = Holds JNull, writable = True\<rparr>)"
  using primitive_store_rejected [of "\<lparr>store = Holds JNull, writable = True\<rparr>" JNull "''max''" demo_tokens 1000]
  by simp

text \<open>
  C15: The printed authorization URL carries exactly the eight parameters of lines
  49--56, in that order, with the PKCE challenge as \<open>code_challenge\<close> and the
  PKCE verifier itself as \<open>state\<close>.
\<close>

theorem authorize_params_exact:
  "authorize_params p =
     [(''code'', ''true''), (''client_id'', client_id), (''response_type'', ''code''),
      (''redirect_uri'', redirect_uri), (''scope'', oauth_scope),
      (''code_challenge'', challenge p), (''code_challenge_method'', ''S256''),
      (''state'', verifier p)]"
  by (simp add: authorize_params_def)


end
