(* ===== verification/Runs.thy ===== *)
theory Runs
  imports Enroll
begin

section \<open>Runs of the enrollment script in sequence and interleaved\<close>

text \<open>
  The store is shared by every run of \<open>add-account.ts\<close>. This theory composes
  whole runs one after another (\<open>run_all\<close>) and, splitting a run at its
  \<open>loadAuth\<close> (line 106) and its \<open>saveAuth\<close> (line 131), interleaves the
  loads and saves of several runs (\<open>race_run\<close>).
\<close>

subsection \<open>The store as the enrollment script sees it\<close>

text \<open>
  The account list of a document, and the documents the enrollment upserts into
  without repairing them: JSON documents whose \<open>anthropic.multiAccounts.accounts\<close>
  is an array without \<open>null\<close> entries. A missing, unreadable or corrupt file loads
  as such a document.
\<close>

definition doc_accounts :: "jsv \<Rightarrow> jsv list" where
  "doc_accounts d = (case obj_path d accounts_path of Some (JArr xs ps) \<Rightarrow> xs | _ \<Rightarrow> [])"

definition shaped_doc :: "jsv \<Rightarrow> bool" where
  "shaped_doc d =
     (is_json d \<and> (case obj_path d accounts_path of Some (JArr xs ps) \<Rightarrow> JNull \<notin> set xs | _ \<Rightarrow> False))"

text \<open>
  Whether a run reaches the store, and with which name and token response: the
  guards of lines 37--104 (an account name, a code, a response with an ok status
  and a parsed body).
\<close>

definition exchanged :: "enroll_input \<Rightarrow> (string \<times> token_response) option" where
  "exchanged inp =
     (case argv_name inp of
        None \<Rightarrow> None
      | Some nm \<Rightarrow>
          if nm = [] then None
          else
            (let code = extract_code (parse_url inp) (js_trim (pasted inp))
             in if code = [] then None
                else
                  (case token_endpoint inp (token_request code (pkce inp)) of
                     Network_Error \<Rightarrow> None
                   | Response status text payload \<Rightarrow>
                       if response_ok status then map_option (\<lambda>tok. (nm, tok)) payload else None)))"

text \<open>Runs of the script one after another on one file system.\<close>

fun run_all :: "enroll_input list \<Rightarrow> fs_state \<Rightarrow> fs_state" where
  "run_all [] st = st"
| "run_all (inp # inps) st = run_all inps (final (add_account_main inp st))"

text \<open>
  The contract of a sequence of runs: the account list read as a map from names,
  every run that reaches the store binding its name to its new record.
\<close>

fun enroll_map :: "enroll_input list \<Rightarrow> (string \<Rightarrow> jsv option) \<Rightarrow> string \<Rightarrow> jsv option" where
  "enroll_map [] m = m"
| "enroll_map (inp # inps) m =
     enroll_map inps
       (case exchanged inp of
          None \<Rightarrow> m
        | Some (nm, tok) \<Rightarrow> m(nm \<mapsto> account_json (make_account nm tok (now_ms inp))))"

fun enrolled_names :: "enroll_input list \<Rightarrow> string list" where
  "enrolled_names [] = []"
| "enrolled_names (inp # inps) =
     (case exchanged inp of None \<Rightarrow> [] | Some (nm, tok) \<Rightarrow> [nm]) @ enrolled_names inps"

text \<open>The names of the list after an upsert: a new name goes last.\<close>

definition add_name :: "string list \<Rightarrow> string \<Rightarrow> string list" where
  "add_name ns nm = (if nm \<in> set ns then ns else ns @ [nm])"

subsection \<open>Interleaved runs\<close>

text \<open>
  A run that has its tokens is a job: a name, a token response and the clock. Its
  \<open>loadAuth\<close> (line 106) and the statements from there to its \<open>saveAuth\<close>
  (lines 107--131) are two steps of a schedule; between them the process holds the
  document it loaded. Nothing in the program orders the steps of two processes.
\<close>

type_synonym job = "string \<times> token_response \<times> int"

datatype action = Load nat | Save nat

record race =
  disk :: fs_state
  held :: "(nat \<times> jsv) list"

definition race_step :: "(nat \<Rightarrow> job) \<Rightarrow> race \<Rightarrow> action \<Rightarrow> race" where
  "race_step job r a =
     (case a of
        Load p \<Rightarrow> r\<lparr>held := (p, load_auth (store (disk r))) # held r\<rparr>
      | Save p \<Rightarrow>
          (case map_of (held r) p of
             None \<Rightarrow> r
           | Some d \<Rightarrow>
               (case job p of (nm, tok, now) \<Rightarrow>
                  r\<lparr>disk := snd (commit_tokens nm tok now d (disk r))\<rparr>)))"

definition race_run :: "(nat \<Rightarrow> job) \<Rightarrow> action list \<Rightarrow> race \<Rightarrow> race" where
  "race_run job acts r = foldl (race_step job) r acts"


text \<open>
  The invariant of the store under any schedule: the file and every document a
  process holds are well shaped, with distinct account names.
\<close>

definition good_doc :: "jsv \<Rightarrow> bool" where
  "good_doc d = (shaped_doc d \<and> distinct (acct_names (doc_accounts d)))"

definition race_inv :: "race \<Rightarrow> bool" where
  "race_inv r = (good_doc (load_auth (store (disk r))) \<and> (\<forall>pd\<in>set (held r). good_doc (snd pd)))"

subsection \<open>Lemmas\<close>

lemma is_json_obj_path: "is_json v \<Longrightarrow> obj_path v ks = Some c \<Longrightarrow> is_json c"
proof (induction v ks rule: obj_path.induct)
  case (2 kvs k ks)
  then show ?case by (auto split: option.splits dest: map_of_SomeD)
qed simp_all

lemma shaped_docE:
  assumes "shaped_doc d"
  obtains xs where "obj_path d accounts_path = Some (JArr xs [])" "JNull \<notin> set xs"
    "\<forall>x\<in>set xs. is_json x" "doc_accounts d = xs" "is_json d"
proof -
  from assms obtain c where c: "obj_path d accounts_path = Some c" and j: "is_json d"
    by (auto simp: shaped_doc_def split: option.splits)
  with assms obtain xs ps where "c = JArr xs ps" "JNull \<notin> set xs"
    by (cases c) (auto simp: shaped_doc_def)
  moreover have "is_json c" by (rule is_json_obj_path [OF j c])
  ultimately show ?thesis using that c j by (simp add: doc_accounts_def)
qed

text \<open>The account list after the upsert of a run, with its record.\<close>

abbreviation upserted :: "string \<Rightarrow> token_response \<Rightarrow> int \<Rightarrow> jsv list \<Rightarrow> jsv list" where
  "upserted nm tok now xs \<equiv> upsert_list (name_index nm xs) (account_json (make_account nm tok now)) xs"

lemma commit_tokens_shaped:
  assumes "shaped_doc d"
  shows "commit_tokens nm tok now d st =
           (if writable st then
              (if nm \<in> set (acct_names (doc_accounts d)) then Updated nm else Added nm,
               st\<lparr>store := Holds (obj_update d accounts_path
                                   (JArr (upserted nm tok now (doc_accounts d)) []))\<rparr>)
            else (Rejected Write_Failure, st))"
proof -
  obtain xs where p: "obj_path d accounts_path = Some (JArr xs [])" and n: "JNull \<notin> set xs"
    and xs: "\<forall>x\<in>set xs. is_json x" and a: "doc_accounts d = xs" and j: "is_json d"
    using assms by (rule shaped_docE)
  have "\<forall>x\<in>set (upserted nm tok now xs). is_json x"
    using xs by (rule upsert_list_all) simp
  then have "is_json (obj_update d accounts_path (JArr (upserted nm tok now xs) []))"
    using j by (simp add: is_json_obj_update)
  then show ?thesis
    using persist_on_shape [OF p n] a
    by (simp add: commit_tokens_def save_auth_def name_index_None)
qed

lemma shaped_upsert:
  assumes "shaped_doc d"
  shows "shaped_doc (obj_update d accounts_path (JArr (upserted nm tok now (doc_accounts d)) []))
         \<and> doc_accounts (obj_update d accounts_path (JArr (upserted nm tok now (doc_accounts d)) []))
             = upserted nm tok now (doc_accounts d)"
proof -
  obtain xs where p: "obj_path d accounts_path = Some (JArr xs [])" and n: "JNull \<notin> set xs"
    and xs: "\<forall>x\<in>set xs. is_json x" and a: "doc_accounts d = xs" and j: "is_json d"
    using assms by (rule shaped_docE)
  have "\<forall>x\<in>set (upserted nm tok now xs). is_json x \<and> x \<noteq> JNull"
    using xs n by (intro upsert_list_all) (auto simp: account_json_def)
  with p j a show ?thesis
    by (auto simp: shaped_doc_def doc_accounts_def is_json_obj_update)
qed

text \<open>A run changes the file system only through \<open>store_tokens\<close>, after an exchange.\<close>

lemma final_main:
  "final (add_account_main inp st) =
     (case exchanged inp of None \<Rightarrow> st | Some (nm, tok) \<Rightarrow> snd (store_tokens nm tok (now_ms inp) st))"
  by (auto simp: add_account_main_def exchanged_def Let_def
           split: option.splits if_splits http_result.splits prod.splits)

lemma outcome_main:
  "exchanged inp = Some (nm, tok) \<Longrightarrow>
     outcome (add_account_main inp st) = fst (store_tokens nm tok (now_ms inp) st)"
  by (auto simp: add_account_main_def exchanged_def Let_def
           split: option.splits if_splits http_result.splits prod.splits)

text \<open>One run on a well-shaped writable store.\<close>

lemma run_step:
  assumes "shaped_doc (load_auth (store st))" "writable st"
  shows "shaped_doc (load_auth (store (final (add_account_main inp st))))
         \<and> writable (final (add_account_main inp st))
         \<and> doc_accounts (load_auth (store (final (add_account_main inp st)))) =
             (case exchanged inp of
                None \<Rightarrow> doc_accounts (load_auth (store st))
              | Some (nm, tok) \<Rightarrow> upserted nm tok (now_ms inp) (doc_accounts (load_auth (store st))))"
proof (cases "exchanged inp")
  case None
  with assms show ?thesis by (simp add: final_main)
next
  case (Some r)
  then obtain nm tok where r: "exchanged inp = Some (nm, tok)" by (cases r) auto
  from assms r show ?thesis
    by (simp add: final_main store_tokens_def commit_tokens_shaped shaped_upsert load_auth_def)
qed

lemma run_all_shaped:
  "shaped_doc (load_auth (store st)) \<Longrightarrow> writable st \<Longrightarrow>
     shaped_doc (load_auth (store (run_all inps st))) \<and> writable (run_all inps st)"
  by (induction inps arbitrary: st) (simp_all add: run_step)

lemma run_all_lookup:
  "shaped_doc (load_auth (store st)) \<Longrightarrow> writable st \<Longrightarrow>
     acct_lookup (doc_accounts (load_auth (store (run_all inps st)))) =
       enroll_map inps (acct_lookup (doc_accounts (load_auth (store st))))"
proof (induction inps arbitrary: st)
  case Nil
  then show ?case by simp
next
  case (Cons inp inps)
  note step = run_step [OF Cons.prems, of inp]
  with Cons.IH [of "final (add_account_main inp st)"] show ?case
    by (auto simp: lookup_upsert split: option.splits)
qed

lemma run_all_names:
  "shaped_doc (load_auth (store st)) \<Longrightarrow> writable st \<Longrightarrow>
     acct_names (doc_accounts (load_auth (store (run_all inps st)))) =
       foldl add_name (acct_names (doc_accounts (load_auth (store st)))) (enrolled_names inps)"
proof (induction inps arbitrary: st)
  case Nil
  then show ?case by simp
next
  case (Cons inp inps)
  note step = run_step [OF Cons.prems, of inp]
  show ?case
  proof (cases "exchanged inp")
    case None
    with step Cons.IH [of "final (add_account_main inp st)"] show ?thesis by simp
  next
    case (Some r)
    then obtain nm tok where r: "exchanged inp = Some (nm, tok)" by (cases r) auto
    with step Cons.IH [of "final (add_account_main inp st)"] show ?thesis
      by (simp add: upsert_names add_name_def)
  qed
qed

lemma run_all_length:
  "shaped_doc (load_auth (store st)) \<Longrightarrow> writable st \<Longrightarrow>
     length (doc_accounts (load_auth (store (run_all inps st)))) =
       length (doc_accounts (load_auth (store st)))
       + card (set (enrolled_names inps) - set (acct_names (doc_accounts (load_auth (store st)))))"
proof (induction inps arbitrary: st)
  case Nil
  then show ?case by simp
next
  case (Cons inp inps)
  note step = run_step [OF Cons.prems, of inp]
  show ?case
  proof (cases "exchanged inp")
    case None
    with step Cons.IH [of "final (add_account_main inp st)"] show ?thesis by simp
  next
    case (Some r)
    then obtain nm tok where r: "exchanged inp = Some (nm, tok)" by (cases r) auto
    let ?ns = "set (acct_names (doc_accounts (load_auth (store st))))"
    have "set (acct_names (upserted nm tok (now_ms inp) (doc_accounts (load_auth (store st)))))
            = insert nm ?ns"
      by (auto simp: upsert_names)
    with r step Cons.IH [of "final (add_account_main inp st)"] show ?thesis
      by (simp add: length_upsert card_insert_diff)
  qed
qed

lemma set_foldl_add_name: "set (foldl add_name ns E) = set ns \<union> set E"
  by (induction E arbitrary: ns) (auto simp: add_name_def)

lemma distinct_foldl_add_name: "distinct ns \<Longrightarrow> distinct (foldl add_name ns E)"
  by (induction E arbitrary: ns) (auto simp: add_name_def)

lemma foldl_add_name_fresh: "distinct (ns @ E) \<Longrightarrow> foldl add_name ns E = ns @ E"
  by (induction E arbitrary: ns) (auto simp: add_name_def)

lemma count_name_distinct:
  "distinct (acct_names xs) \<Longrightarrow> nm \<in> set (acct_names xs) \<Longrightarrow>
     length (filter (\<lambda>a. name_str a = Some nm) xs) = 1"
proof (induction xs)
  case Nil
  then show ?case by simp
next
  case (Cons a xs)
  have none: "nm \<notin> set (acct_names xs) \<Longrightarrow> filter (\<lambda>a. name_str a = Some nm) xs = []"
    by (induction xs) (auto split: option.splits)
  from Cons show ?case by (auto split: option.splits if_splits intro: none)
qed

lemma shaped_empty_auth [simp]: "shaped_doc empty_auth" "doc_accounts empty_auth = []"
  by (simp_all add: shaped_doc_def doc_accounts_def empty_auth_def accounts_path_def)

lemma commit_good:
  assumes "good_doc d" "good_doc (load_auth (store st))"
  shows "good_doc (load_auth (store (snd (commit_tokens nm tok now d st))))"
proof -
  have s: "shaped_doc d" and n: "distinct (acct_names (doc_accounts d))"
    using assms(1) by (simp_all add: good_doc_def)
  show ?thesis
    using assms(2) shaped_upsert [OF s, of nm tok now] n
    by (simp add: commit_tokens_shaped [OF s] good_doc_def load_auth_def upsert_names)
qed

lemma race_step_inv:
  assumes "race_inv r"
  shows "race_inv (race_step job r a)"
proof (cases a)
  case (Load p)
  with assms show ?thesis by (simp add: race_inv_def race_step_def)
next
  case (Save p)
  show ?thesis
  proof (cases "map_of (held r) p")
    case None
    with Save assms show ?thesis by (simp add: race_step_def)
  next
    case (Some d)
    then have "(p, d) \<in> set (held r)" by (rule map_of_SomeD)
    with assms have "good_doc d" by (auto simp: race_inv_def)
    with Save Some assms show ?thesis
      by (auto simp: race_inv_def race_step_def commit_good split: prod.splits)
  qed
qed

lemma race_run_inv: "race_inv r \<Longrightarrow> race_inv (race_run job acts r)"
  unfolding race_run_def by (induction acts arbitrary: r) (simp_all add: race_step_inv)

subsection \<open>Theorems: runs in sequence\<close>

text \<open>
  C28: Refinement of a sequence of runs: on a well-shaped writable store, any
  sequence of runs of the script leaves a well-shaped store whose account list, read
  as a map from names, is the map before with each run that reached the store
  binding its name to its new record, in the order of the runs.
\<close>

theorem run_all_refines:
  assumes "shaped_doc (load_auth (store st))" "writable st"
  shows "shaped_doc (load_auth (store (run_all inps st)))
         \<and> acct_lookup (doc_accounts (load_auth (store (run_all inps st)))) =
             enroll_map inps (acct_lookup (doc_accounts (load_auth (store st))))"
  using run_all_shaped [OF assms] run_all_lookup [OF assms] by simp

text \<open>
  C29: Invariant of the account list over any sequence of runs: the names stay
  distinct, they are the old names and the enrolled ones, and the list grows by
  exactly the number of names that were not in it.
\<close>

theorem run_all_names_count:
  assumes "shaped_doc (load_auth (store st))" "writable st"
    and "distinct (acct_names (doc_accounts (load_auth (store st))))"
  shows "distinct (acct_names (doc_accounts (load_auth (store (run_all inps st)))))
         \<and> set (acct_names (doc_accounts (load_auth (store (run_all inps st))))) =
             set (acct_names (doc_accounts (load_auth (store st)))) \<union> set (enrolled_names inps)
         \<and> length (doc_accounts (load_auth (store (run_all inps st)))) =
             length (doc_accounts (load_auth (store st)))
             + card (set (enrolled_names inps) - set (acct_names (doc_accounts (load_auth (store st)))))"
  using run_all_names [OF assms(1,2)] run_all_length [OF assms(1,2)] assms(3)
  by (simp add: set_foldl_add_name distinct_foldl_add_name)

text \<open>
  C30: Starting from a missing, unreadable or corrupt store, N runs that enroll N
  distinct names leave exactly N accounts, in the order of the runs.
\<close>

theorem fresh_store_enrollments:
  assumes "store st \<in> {Missing, Unreadable, Corrupt}" "writable st"
    and "distinct (enrolled_names inps)"
  shows "acct_names (doc_accounts (load_auth (store (run_all inps st)))) = enrolled_names inps
         \<and> length (doc_accounts (load_auth (store (run_all inps st)))) = length (enrolled_names inps)"
proof -
  have l: "load_auth (store st) = empty_auth" using assms(1) by (auto simp: load_auth_def)
  have s: "shaped_doc (load_auth (store st))" by (simp add: l)
  show ?thesis
    using run_all_names [OF s assms(2), of inps] run_all_length [OF s assms(2), of inps] assms(3)
    by (simp add: l foldl_add_name_fresh distinct_card)
qed

text \<open>
  C31: Re-enrollment replaces: two runs for the same name leave exactly one entry
  of that name, and it is the record of the second exchange (a whole replacement,
  no merge of fields).
\<close>

theorem reenroll_replaces:
  assumes "shaped_doc (load_auth (store st))" "writable st"
    and "distinct (acct_names (doc_accounts (load_auth (store st))))"
    and "exchanged i1 = Some (nm, t1)" "exchanged i2 = Some (nm, t2)"
  shows "length (filter (\<lambda>a. name_str a = Some nm)
                  (doc_accounts (load_auth (store (run_all [i1, i2] st))))) = 1
         \<and> acct_lookup (doc_accounts (load_auth (store (run_all [i1, i2] st)))) nm =
             Some (account_json (make_account nm t2 (now_ms i2)))"
proof -
  have n: "acct_names (doc_accounts (load_auth (store (run_all [i1, i2] st)))) =
             foldl add_name (acct_names (doc_accounts (load_auth (store st)))) [nm, nm]"
    using run_all_names [OF assms(1,2), of "[i1, i2]"] assms(4,5) by simp
  have "distinct (acct_names (doc_accounts (load_auth (store (run_all [i1, i2] st)))))"
    and "nm \<in> set (acct_names (doc_accounts (load_auth (store (run_all [i1, i2] st)))))"
    using assms(3) by (simp_all only: n distinct_foldl_add_name set_foldl_add_name) simp
  then have "length (filter (\<lambda>a. name_str a = Some nm)
               (doc_accounts (load_auth (store (run_all [i1, i2] st))))) = 1"
    by (rule count_name_distinct)
  moreover have "acct_lookup (doc_accounts (load_auth (store (run_all [i1, i2] st)))) nm =
             Some (account_json (make_account nm t2 (now_ms i2)))"
    using run_all_lookup [OF assms(1,2), of "[i1, i2]"] assms(4,5) by simp
  ultimately show ?thesis by simp
qed

text \<open>
  C32: The record a run stores: the name, the two tokens, and the expiry
  \<open>Date.now() + expires_in * 1000\<close> in milliseconds.
\<close>

theorem enrolled_record:
  assumes "shaped_doc (load_auth (store st))" "writable st" "exchanged inp = Some (nm, tok)"
  shows "acct_lookup (doc_accounts (load_auth (store (final (add_account_main inp st))))) nm =
           Some (JObj [(''name'', JStr nm), (''access'', JStr (access_token tok)),
                       (''refresh'', JStr (refresh_token tok)),
                       (''expires'', JNum (of_int (now_ms inp) + expires_in tok * 1000))])"
  using run_all_lookup [OF assms(1,2), of "[inp]"] assms(3)
  by (simp add: account_json_def make_account_def)

text \<open>
  C33: A store that cannot be written makes the run end with the write's exception,
  which \<open>main().catch(console.error)\<close> prints: the exit status is 0, although
  the account was not saved.
\<close>

theorem write_failure_exit_zero:
  assumes "shaped_doc (load_auth (store st))" "\<not> writable st" "exchanged inp = Some (nm, tok)"
  shows "outcome (add_account_main inp st) = Rejected Write_Failure
         \<and> exit_status (outcome (add_account_main inp st)) = 0
         \<and> final (add_account_main inp st) = st"
  using assms by (simp add: outcome_main final_main store_tokens_def commit_tokens_shaped)

subsection \<open>Theorems: interleaved runs\<close>

text \<open>
  C34: Invariant under every interleaving: whatever the order of the loads and
  saves of any number of enrollments, the file holds a well-shaped document with
  distinct account names after every step, so a usage report that reads it at any
  moment reads such a document (section 5 of the spec: no torn structure).
\<close>

theorem race_store_good:
  assumes "race_inv r"
  shows "\<forall>k\<le>length acts. good_doc (load_auth (store (disk (race_run job (take k acts) r))))"
  using race_run_inv [OF assms] by (simp add: race_inv_def)

text \<open>
  C35: The lost update of section 5 of the spec: when two enrollments of new names
  both load the store before either saves, the second save writes the document its
  process loaded, and the account of the first is lost.
\<close>

theorem race_loses_update:
  assumes "shaped_doc (load_auth (store st))" "writable st"
    and "job 0 = (nm0, t0, n0)" "job 1 = (nm1, t1, n1)" "nm0 \<noteq> nm1"
    and "nm0 \<notin> set (acct_names (doc_accounts (load_auth (store st))))"
    and "nm1 \<notin> set (acct_names (doc_accounts (load_auth (store st))))"
  shows "doc_accounts (load_auth (store (disk (race_run job [Load 0, Load 1, Save 0, Save 1]
                                                   \<lparr>disk = st, held = []\<rparr>))))
           = doc_accounts (load_auth (store st)) @ [account_json (make_account nm1 t1 n1)]
         \<and> nm0 \<notin> set (acct_names (doc_accounts (load_auth (store (disk (race_run job
               [Load 0, Load 1, Save 0, Save 1] \<lparr>disk = st, held = []\<rparr>))))))"
proof -
  let ?d = "load_auth (store st)"
  let ?st0 = "snd (commit_tokens nm0 t0 n0 ?d st)"
  have w0: "writable ?st0" using assms(2) by (simp add: commit_tokens_shaped [OF assms(1)])
  have r: "disk (race_run job [Load 0, Load 1, Save 0, Save 1] \<lparr>disk = st, held = []\<rparr>) =
             snd (commit_tokens nm1 t1 n1 ?d ?st0)"
    using assms(3,4) by (simp add: race_run_def race_step_def)
  have u: "doc_accounts (load_auth (store (snd (commit_tokens nm1 t1 n1 ?d ?st0)))) =
             upserted nm1 t1 n1 (doc_accounts ?d)"
    using shaped_upsert [OF assms(1), of nm1 t1 n1] w0
    by (simp add: commit_tokens_shaped [OF assms(1)] load_auth_simps(1))
  have i: "name_index nm1 (doc_accounts ?d) = None"
    using assms(7) by (simp add: name_index_None)
  have "acct_names (upserted nm1 t1 n1 (doc_accounts ?d)) = acct_names (doc_accounts ?d) @ [nm1]"
    using assms(7) by (simp add: upsert_names)
  with r u i assms(5,6) show ?thesis by (simp add: upsert_list_def)
qed


subsection \<open>Witnesses\<close>

text \<open>
  The claims applied to the example run of \<open>Enroll\<close> (name \<open>max\<close>, tokens valid
  for an hour, clock 1000) and to the same run for the name \<open>pro\<close>, on a store
  file that does not exist yet.
\<close>

theorem run_all_refines_witness:
  "shaped_doc (load_auth (store \<lparr>store = Missing, writable = True\<rparr>))
   \<and> writable \<lparr>store = Missing, writable = True\<rparr>
   \<and> acct_lookup (doc_accounts (load_auth (store (run_all [demo_input, demo_input\<lparr>argv_name := Some ''pro''\<rparr>]
        \<lparr>store = Missing, writable = True\<rparr>)))) ''pro''
       = Some (account_json (make_account ''pro'' demo_tokens 1000))"
  using run_all_refines [of "\<lparr>store = Missing, writable = True\<rparr>"
      "[demo_input, demo_input\<lparr>argv_name := Some ''pro''\<rparr>]"]
  by (simp add: exchanged_def extract_code_def search_get_def response_ok_def load_auth_def)

theorem run_all_names_count_witness:
  "shaped_doc (load_auth (store \<lparr>store = Missing, writable = True\<rparr>))
   \<and> writable \<lparr>store = Missing, writable = True\<rparr>
   \<and> distinct (acct_names (doc_accounts (load_auth (store \<lparr>store = Missing, writable = True\<rparr>))))
   \<and> length (doc_accounts (load_auth (store (run_all
        [demo_input, demo_input\<lparr>argv_name := Some ''pro''\<rparr>, demo_input]
        \<lparr>store = Missing, writable = True\<rparr>)))) = 2"
proof -
  let ?st = "\<lparr>store = Missing, writable = True\<rparr>"
  let ?inps = "[demo_input, demo_input\<lparr>argv_name := Some ''pro''\<rparr>, demo_input]"
  have h1: "shaped_doc (load_auth (store ?st))" by (simp add: load_auth_def)
  have h2: "writable ?st" by simp
  have h3: "distinct (acct_names (doc_accounts (load_auth (store ?st))))" by (simp add: load_auth_def)
  have e: "enrolled_names ?inps = [''max'', ''pro'', ''max'']"
    by (simp add: exchanged_def extract_code_def search_get_def response_ok_def)
  from run_all_names_count [OF h1 h2 h3, of ?inps]
  have "length (doc_accounts (load_auth (store (run_all ?inps ?st)))) =
          length (doc_accounts (load_auth (store ?st)))
          + card (set (enrolled_names ?inps) - set (acct_names (doc_accounts (load_auth (store ?st)))))"
    by blast
  then have "length (doc_accounts (load_auth (store (run_all ?inps ?st)))) = 2"
    unfolding e by (simp add: load_auth_def card_insert_if)
  with h1 h2 h3 show ?thesis by blast
qed

theorem fresh_store_enrollments_witness:
  "store \<lparr>store = Corrupt, writable = True\<rparr> \<in> {Missing, Unreadable, Corrupt}
   \<and> writable \<lparr>store = Corrupt, writable = True\<rparr>
   \<and> distinct (enrolled_names [demo_input, demo_input\<lparr>argv_name := Some ''pro''\<rparr>])
   \<and> acct_names (doc_accounts (load_auth (store (run_all [demo_input, demo_input\<lparr>argv_name := Some ''pro''\<rparr>]
        \<lparr>store = Corrupt, writable = True\<rparr>)))) = [''max'', ''pro'']"
  using fresh_store_enrollments [of "\<lparr>store = Corrupt, writable = True\<rparr>"
      "[demo_input, demo_input\<lparr>argv_name := Some ''pro''\<rparr>]"]
  by (simp add: exchanged_def extract_code_def search_get_def response_ok_def)

theorem reenroll_replaces_witness:
  "shaped_doc (load_auth (store \<lparr>store = Missing, writable = True\<rparr>))
   \<and> exchanged (demo_input\<lparr>token_endpoint := (\<lambda>b. Response 200 ''{}''
        (Some (demo_tokens\<lparr>access_token := ''A2''\<rparr>)))\<rparr>) = Some (''max'', demo_tokens\<lparr>access_token := ''A2''\<rparr>)
   \<and> acct_lookup (doc_accounts (load_auth (store (run_all [demo_input, demo_input\<lparr>token_endpoint :=
        (\<lambda>b. Response 200 ''{}'' (Some (demo_tokens\<lparr>access_token := ''A2''\<rparr>)))\<rparr>]
        \<lparr>store = Missing, writable = True\<rparr>)))) ''max''
       = Some (account_json (make_account ''max'' (demo_tokens\<lparr>access_token := ''A2''\<rparr>) 1000))"
proof -
  have e: "exchanged (demo_input\<lparr>token_endpoint := (\<lambda>b. Response 200 ''{}''
        (Some (demo_tokens\<lparr>access_token := ''A2''\<rparr>)))\<rparr>) = Some (''max'', demo_tokens\<lparr>access_token := ''A2''\<rparr>)"
    by (simp add: exchanged_def extract_code_def search_get_def response_ok_def)
  from reenroll_replaces [of "\<lparr>store = Missing, writable = True\<rparr>" demo_input "''max''" demo_tokens
      "demo_input\<lparr>token_endpoint := (\<lambda>b. Response 200 ''{}'' (Some (demo_tokens\<lparr>access_token := ''A2''\<rparr>)))\<rparr>"
      "demo_tokens\<lparr>access_token := ''A2''\<rparr>"] e
  show ?thesis by (simp add: exchanged_def extract_code_def search_get_def response_ok_def load_auth_def)
qed

theorem enrolled_record_witness:
  "shaped_doc (load_auth (store \<lparr>store = Missing, writable = True\<rparr>))
   \<and> exchanged demo_input = Some (''max'', demo_tokens)
   \<and> acct_lookup (doc_accounts (load_auth (store (final (add_account_main demo_input
        \<lparr>store = Missing, writable = True\<rparr>))))) ''max''
       = Some (JObj [(''name'', JStr ''max''), (''access'', JStr ''A''), (''refresh'', JStr ''R''),
                     (''expires'', JNum 3601000)])"
  using enrolled_record [of "\<lparr>store = Missing, writable = True\<rparr>" demo_input "''max''" demo_tokens]
  by (simp add: exchanged_def extract_code_def search_get_def response_ok_def load_auth_def)

theorem write_failure_exit_zero_witness:
  "shaped_doc (load_auth (store \<lparr>store = Missing, writable = False\<rparr>))
   \<and> exchanged demo_input = Some (''max'', demo_tokens)
   \<and> outcome (add_account_main demo_input \<lparr>store = Missing, writable = False\<rparr>) = Rejected Write_Failure
   \<and> exit_status (outcome (add_account_main demo_input \<lparr>store = Missing, writable = False\<rparr>)) = 0"
  using write_failure_exit_zero [of "\<lparr>store = Missing, writable = False\<rparr>" demo_input "''max''" demo_tokens]
  by (simp add: exchanged_def extract_code_def search_get_def response_ok_def load_auth_def)

theorem race_store_good_witness:
  "race_inv \<lparr>disk = \<lparr>store = Missing, writable = True\<rparr>, held = []\<rparr>
   \<and> good_doc (load_auth (store (disk (race_run
       (\<lambda>p. if p = 0 then (''max'', demo_tokens, 1000) else (''max'', demo_tokens, 2000))
       [Load 0, Load 1, Save 0, Save 1] \<lparr>disk = \<lparr>store = Missing, writable = True\<rparr>, held = []\<rparr>))))"
proof -
  have i: "race_inv \<lparr>disk = \<lparr>store = Missing, writable = True\<rparr>, held = []\<rparr>"
    by (simp add: race_inv_def good_doc_def load_auth_def)
  from race_store_good [OF i, of "[Load 0, Load 1, Save 0, Save 1]"
      "\<lambda>p. if p = 0 then (''max'', demo_tokens, 1000) else (''max'', demo_tokens, 2000)",
      rule_format, of 4] i
  show ?thesis by simp
qed

theorem race_loses_update_witness:
  "shaped_doc (load_auth (store \<lparr>store = Missing, writable = True\<rparr>))
   \<and> doc_accounts (load_auth (store (disk (race_run
       (\<lambda>p. if p = 0 then (''max'', demo_tokens, 1000) else (''pro'', demo_tokens, 2000))
       [Load 0, Load 1, Save 0, Save 1] \<lparr>disk = \<lparr>store = Missing, writable = True\<rparr>, held = []\<rparr>))))
       = [account_json (make_account ''pro'' demo_tokens 2000)]"
  using race_loses_update [of "\<lparr>store = Missing, writable = True\<rparr>"
      "\<lambda>p. if p = 0 then (''max'', demo_tokens, 1000) else (''pro'', demo_tokens, 2000)"
      "''max''" demo_tokens 1000 "''pro''" demo_tokens 2000]
  by (simp add: load_auth_def)

end
