(* ===== verification/Usage.thy ===== *)
theory Usage
  imports Accounts
begin

section \<open>The usage report\<close>

text \<open>
  \<open>src/src/usage.ts\<close> reads \<open>anthropic.multiAccounts\<close> of the store and prints,
  for every account in store order, its three usage windows as progress bars with
  a percentage and a reset time. This theory models \<open>progressBar\<close> (lines
  21--27), \<open>formatResetTime\<close> (lines 30--40), the rendering of one window and of
  one account (lines 50--74), the loop (line 49) and the top-level check (lines
  43--47).

  The host's conversions are parameters (\<open>host\<close>): the decimal printing of a
  number (\<open>Number.prototype.toString\<close>), the parsing of a numeric string
  (\<open>None\<close> is NaN), and the \<open>Intl.DateTimeFormat\<close> format of a valid time value
  in milliseconds. The output is the list of lines \<open>console.log\<close> printed; an
  exception that escapes ends the script (Bun prints it and exits with status 1),
  so a rendering step returns the lines it printed and the exception that stopped
  it, if any. A bar is a list of cells; \<open>bar_text\<close> spells it in UTF-8.
\<close>

subsection \<open>Definitions\<close>

record host =
  num_to_string :: "real \<Rightarrow> string"
  str_to_number :: "string \<Rightarrow> real option"
  format_date :: "int \<Rightarrow> string"

text \<open>ToString, as template literals and computed property keys apply it.\<close>

fun js_str_val :: "host \<Rightarrow> jsv \<Rightarrow> string" where
  "js_str_val h JNull = ''null''"
| "js_str_val h (JBool b) = (if b then ''true'' else ''false'')"
| "js_str_val h (JNum n) = num_to_string h n"
| "js_str_val h (JStr s) = s"
| "js_str_val h (JArr xs ps) =
     js_join '','' (map (\<lambda>x. if x = JNull then [] else js_str_val h x) xs)"
| "js_str_val h (JObj kvs) = ''[object Object]''"
| "js_str_val h (JBuiltin b) = ''function '' @ b @ ''() { [native code] }''"

definition js_str :: "host \<Rightarrow> jsv option \<Rightarrow> string" where
  "js_str h v = (case v of None \<Rightarrow> ''undefined'' | Some x \<Rightarrow> js_str_val h x)"

text \<open>ToNumber (\<open>None\<close> is NaN); objects convert through their string form.\<close>

definition js_to_number :: "host \<Rightarrow> jsv option \<Rightarrow> real option" where
  "js_to_number h v =
     (case v of
        None \<Rightarrow> None
      | Some JNull \<Rightarrow> Some 0
      | Some (JBool b) \<Rightarrow> Some (if b then 1 else 0)
      | Some (JNum n) \<Rightarrow> Some n
      | Some (JStr s) \<Rightarrow> str_to_number h s
      | Some x \<Rightarrow> str_to_number h (js_str_val h x))"

text \<open>\<open>v || 0\<close>\<close>

definition js_or_zero :: "jsv option \<Rightarrow> jsv option" where
  "js_or_zero v = (if js_truthy v then v else Some (JNum 0))"

text \<open>\<open>Math.round\<close> on a finite number: the floor of \<open>x + 1/2\<close>; NaN stays NaN.\<close>

definition js_round :: "real option \<Rightarrow> int option" where
  "js_round x = map_option (\<lambda>r. \<lfloor>r + 1 / 2\<rfloor>) x"

text \<open>\<open>p % 2\<close> on integers: the remainder takes the sign of the dividend.\<close>

definition js_rem :: "int \<Rightarrow> int \<Rightarrow> int" where
  "js_rem a b = sgn a * (\<bar>a\<bar> mod \<bar>b\<bar>)"

datatype cell = Full | Half | Blank

text \<open>
  Lines 21--27. \<open>'\<dots>'.repeat(n)\<close> throws \<open>RangeError\<close> for a negative count and
  repeats nothing for NaN; \<open>Math.max(0, NaN)\<close> is NaN. The model takes the number
  the script multiplies by 100 (the ToNumber of the argument).
\<close>

definition progress_bar :: "real option \<Rightarrow> js_error + cell list" where
  "progress_bar u =
     (case js_round (map_option (\<lambda>x. x * 100) u) of
        None \<Rightarrow> Inr []
      | Some p \<Rightarrow>
          (let filled = p div 2;
               half = (js_rem p 2 = 1);
               empty = 50 - filled - (if half then 1 else 0)
           in if filled < 0 then Inl RangeError
              else Inr (replicate (nat filled) Full @ (if half then [Half] else [])
                        @ replicate (nat (max 0 empty)) Blank)))"

definition cell_text :: "cell \<Rightarrow> string" where
  "cell_text c =
     (case c of
        Full \<Rightarrow> [char_of (226::nat), char_of (150::nat), char_of (136::nat)]
      | Half \<Rightarrow> [char_of (226::nat), char_of (150::nat), char_of (140::nat)]
      | Blank \<Rightarrow> '' '')"

definition bar_text :: "cell list \<Rightarrow> string" where
  "bar_text cs = concat (map cell_text cs)"

text \<open>
  Lines 30--40. A falsy timestamp prints \<open>Unknown\<close>. Otherwise
  \<open>new Date(t * 1000)\<close> holds the time value truncated to an integer when it
  lies within \<open>8.64e15\<close> ms of the epoch, and an invalid date otherwise (also for
  NaN), on which \<open>format\<close> throws \<open>RangeError\<close>.
\<close>

definition js_trunc :: "real \<Rightarrow> int" where
  "js_trunc x = (if 0 \<le> x then \<lfloor>x\<rfloor> else \<lceil>x\<rceil>)"

definition format_reset_time :: "host \<Rightarrow> jsv option \<Rightarrow> js_error + string" where
  "format_reset_time h ts =
     (if \<not> js_truthy ts then Inr ''Unknown''
      else case js_to_number h ts of
        None \<Rightarrow> Inl RangeError
      | Some t \<Rightarrow>
          if \<bar>t * 1000\<bar> > 8640000000000000 then Inl RangeError
          else Inr (format_date h (js_trunc (t * 1000))))"

text \<open>The lines printed, and the exception that stopped the printing.\<close>

type_synonym printed = "string list \<times> js_error option"

definition pseq :: "printed \<Rightarrow> printed \<Rightarrow> printed" where
  "pseq a b = (case a of (ls, None) \<Rightarrow> (ls @ fst b, snd b) | (ls, Some e) \<Rightarrow> (ls, Some e))"

definition pct_text :: "host \<Rightarrow> int option \<Rightarrow> string" where
  "pct_text h p = (case p of None \<Rightarrow> ''NaN'' | Some q \<Rightarrow> num_to_string h (of_int q))"

text \<open>Lines 59--62 (and 65--68, 71--74): one window of a usage snapshot.\<close>

definition window_lines :: "host \<Rightarrow> string \<Rightarrow> jsv option \<Rightarrow> printed" where
  "window_lines h title w =
     (let n = js_to_number h (js_or_zero (js_chain w ''utilization''));
          pct = js_round (map_option (\<lambda>x. x * 100) n)
      in pseq ([title], None)
           (case progress_bar n of
              Inl e \<Rightarrow> ([], Some e)
            | Inr cells \<Rightarrow>
                pseq ([''  '' @ bar_text cells @ ''  '' @ pct_text h pct @ ''% used''], None)
                  (case format_reset_time h (js_chain w ''reset'') of
                     Inl e \<Rightarrow> ([], Some e)
                   | Inr r \<Rightarrow> ([''  Resets '' @ r], None))))"

text \<open>
  Lines 50--74: one account. \<open>account.name\<close> throws on a \<open>null\<close> entry;
  \<open>multi.usage?.[account.name]\<close> looks the usage up under the name's string form.
\<close>

definition account_lines :: "host \<Rightarrow> jsv \<Rightarrow> jsv \<Rightarrow> printed" where
  "account_lines h multi acct =
     (case js_member (Some acct) ''name'' of
        Inl e \<Rightarrow> ([], Some e)
      | Inr nm \<Rightarrow>
          (let header = ''\<newline>Account: '' @ js_str h nm;
               usage = js_chain (js_get multi ''usage'') (js_str h nm)
           in if \<not> js_truthy usage
              then ([header, ''  No usage data yet (will populate on first API request)''], None)
              else pseq ([header], None)
                     (pseq (window_lines h ''  Current session'' (js_chain usage ''session5h''))
                       (pseq (window_lines h ''\<newline>  Current week (all models)''
                                (js_chain usage ''weekly7d''))
                             (window_lines h ''\<newline>  Current week (Sonnet only)''
                                (js_chain usage ''weekly7dSonnet''))))))"

text \<open>Line 49: \<open>for ... of\<close> iterates arrays and strings, and throws on anything else.\<close>

definition js_iter :: "jsv \<Rightarrow> js_error + jsv list" where
  "js_iter v = (case v of JArr xs ps \<Rightarrow> Inr xs | JStr s \<Rightarrow> Inr (map (\<lambda>c. JStr [c]) s) | _ \<Rightarrow> Inl TypeError)"

fun render_accounts :: "host \<Rightarrow> jsv \<Rightarrow> jsv list \<Rightarrow> printed" where
  "render_accounts h multi [] = ([], None)"
| "render_accounts h multi (a # as) = pseq (account_lines h multi a) (render_accounts h multi as)"

text \<open>
  Lines 43--75. Standard output and error are kept apart; the status is 1 after a
  load error or an uncaught exception, 0 otherwise.
\<close>

datatype out = Log string | Err string

definition usage_main :: "host \<Rightarrow> store_file \<Rightarrow> out list \<times> int" where
  "usage_main h f =
     (case usage_load_auth f of
        Inl e \<Rightarrow> ([Err ''Error reading auth file:''], 1)
      | Inr multi \<Rightarrow>
          if \<not> js_truthy (js_chain (js_chain multi ''accounts'') ''length'')
          then ([Log ''No multi-account configuration found''], 0)
          else
            (case multi of
               None \<Rightarrow> ([], 1)
             | Some m \<Rightarrow>
                 (case js_iter (the (js_get m ''accounts'')) of
                    Inl e \<Rightarrow> ([], 1)
                  | Inr accs \<Rightarrow>
                      (case render_accounts h m accs of
                         (ls, None) \<Rightarrow> (map Log ls, 0)
                       | (ls, Some e) \<Rightarrow> (map Log ls, 1)))))"


subsection \<open>Lemmas: the bar\<close>

lemma js_rem_2_nonneg: "0 \<le> p \<Longrightarrow> js_rem p 2 = p mod 2"
  by (cases "p = 0") (simp_all add: js_rem_def)

lemma progress_bar_Some:
  "progress_bar (Some u) =
     (let p = \<lfloor>u * 100 + 1 / 2\<rfloor>; filled = p div 2; half = (js_rem p 2 = 1)
      in if filled < 0 then Inl RangeError
         else Inr (replicate (nat filled) Full @ (if half then [Half] else [])
                   @ replicate (nat (max 0 (50 - filled - (if half then 1 else 0)))) Blank))"
  by (simp add: progress_bar_def js_round_def Let_def)



lemma bar_cells_over:
  fixes p :: int
  assumes p: "101 \<le> p"
  shows "50 < nat (p div 2) + (if p mod 2 = 1 then 1 else 0)"
proof (cases "p mod 2 = 1")
  case True
  have "50 \<le> p div 2" using p by simp
  with True show ?thesis by simp
next
  case False
  then have "even p" by presburger
  then obtain k where "p = 2 * k" by (auto elim: evenE)
  with p False show ?thesis by simp
qed

subsection \<open>Theorems: the bar\<close>







text \<open>
  C20: A utilization of \<open>1.005\<close> or more gives a bar longer than the 50 cells of a
  full bar.
\<close>

theorem progress_bar_overlong:
  assumes "201 / 200 \<le> u"
  shows "\<exists>cs. progress_bar (Some u) = Inr cs \<and> 50 < length cs"
proof -
  define p where "p = \<lfloor>u * 100 + 1 / 2\<rfloor>"
  have "101 \<le> u * 100 + 1 / 2" using assms by simp
  then have p: "101 \<le> p" unfolding p_def by (simp add: le_floor_iff)
  have rem: "js_rem p 2 = p mod 2" using p by (simp add: js_rem_2_nonneg)
  have "50 < nat (p div 2) + (if p mod 2 = 1 then 1 else 0)" using p by (rule bar_cells_over)
  with p rem show ?thesis by (auto simp: progress_bar_Some Let_def p_def [symmetric])
qed

theorem progress_bar_overlong_witness:
  "(201 / 200 :: real) \<le> 3 / 2 \<and> (\<exists>cs. progress_bar (Some (3 / 2)) = Inr cs \<and> 50 < length cs)"
  using progress_bar_overlong [of "3 / 2"] by simp


subsection \<open>Lemmas: windows and accounts\<close>

lemma pseq_simps [simp]:
  "pseq (ls, None) b = (ls @ fst b, snd b)"
  "pseq (ls, Some e) b = (ls, Some e)"
  by (simp_all add: pseq_def)

text \<open>A window without data: an empty bar at 0 percent, reset unknown.\<close>

lemma window_lines_absent:
  "window_lines h t None =
     ([t, ''  '' @ bar_text (replicate 50 Blank) @ ''  '' @ pct_text h (Some 0) @ ''% used'',
       ''  Resets Unknown''], None)"
proof -
  have "progress_bar (Some 0) = Inr (replicate 50 Blank)"
    by (simp add: progress_bar_def js_round_def js_rem_def)
  then show ?thesis
    by (simp add: window_lines_def js_chain_def js_or_zero_def js_to_number_def js_round_def
                  format_reset_time_def)
qed

subsection \<open>Theorems: reset times, accounts and the report\<close>

text \<open>
  C21: \<open>formatResetTime\<close> prints \<open>Unknown\<close> for an absent, \<open>null\<close> or zero
  timestamp, and formats any other epoch-seconds value within the range of
  \<open>Date\<close> (\<open>8.64e12\<close> seconds) as the host formats the millisecond time.
\<close>

theorem format_reset_time_cases:
  "format_reset_time h None = Inr ''Unknown''
   \<and> format_reset_time h (Some JNull) = Inr ''Unknown''
   \<and> format_reset_time h (Some (JNum 0)) = Inr ''Unknown''
   \<and> (t \<noteq> 0 \<longrightarrow> \<bar>t\<bar> \<le> 8640000000000 \<longrightarrow>
        format_reset_time h (Some (JNum t)) = Inr (format_date h (js_trunc (t * 1000))))"
  by (auto simp: format_reset_time_def js_to_number_def abs_mult)

theorem format_reset_time_cases_witness:
  "(1700000000 :: real) \<noteq> 0 \<and> \<bar>1700000000 :: real\<bar> \<le> 8640000000000
   \<and> format_reset_time \<lparr>num_to_string = (\<lambda>r. ''N''), str_to_number = (\<lambda>s. None),
        format_date = (\<lambda>ms. if ms = 1700000000000 then ''Nov 14, 10:13 PM UTC'' else ''?'')\<rparr>
       (Some (JNum 1700000000)) = Inr ''Nov 14, 10:13 PM UTC''"
  using format_reset_time_cases [of "\<lparr>num_to_string = (\<lambda>r. ''N''), str_to_number = (\<lambda>s. None),
        format_date = (\<lambda>ms. if ms = 1700000000000 then ''Nov 14, 10:13 PM UTC'' else ''?'')\<rparr>"
      "1700000000"]
  by (simp add: js_trunc_def)

text \<open>
  C22: A reset timestamp beyond \<open>8.64e12\<close> seconds gives an invalid \<open>Date\<close>;
  formatting it throws \<open>RangeError\<close> and ends the report.
\<close>

theorem reset_out_of_range:
  assumes "8640000000000 < \<bar>t\<bar>"
  shows "format_reset_time h (Some (JNum t)) = Inl RangeError"
proof -
  from assms have "t \<noteq> 0" by auto
  moreover from assms have "8640000000000000 < \<bar>t * 1000\<bar>" by (simp add: abs_mult)
  ultimately show ?thesis by (simp add: format_reset_time_def js_to_number_def)
qed

theorem reset_out_of_range_witness:
  "(8640000000000 :: real) < \<bar>10000000000000\<bar>
   \<and> format_reset_time \<lparr>num_to_string = (\<lambda>r. ''N''), str_to_number = (\<lambda>s. None),
        format_date = (\<lambda>ms. ''D'')\<rparr> (Some (JNum 10000000000000)) = Inl RangeError"
  using reset_out_of_range [of 10000000000000] by simp

text \<open>
  C23: An account whose name has no entry in the usage map is reported by its name
  and the line "No usage data yet", and nothing else.
\<close>

theorem account_without_usage:
  assumes "map_of kvs ''name'' = Some (JStr nm)" "nm \<notin> set object_proto_keys"
    and "js_get multi ''usage'' = Some (JObj us)" "map_of us nm = None"
  shows "account_lines h multi (JObj kvs) =
           ([''\<newline>Account: '' @ nm, ''  No usage data yet (will populate on first API request)''],
            None)"
  using assms
  by (simp add: account_lines_def js_member_def js_get_store_keys js_str_def js_chain_def
                js_get_obj_plain del: js_get.simps)

theorem account_without_usage_witness:
  "map_of [(''name'', JStr ''max'')] ''name'' = Some (JStr ''max'')
   \<and> ''max'' \<notin> set object_proto_keys
   \<and> js_get (JObj [(''usage'', JObj [])]) ''usage'' = Some (JObj [])
   \<and> map_of [] ''max'' = (None :: jsv option)
   \<and> account_lines \<lparr>num_to_string = (\<lambda>r. ''N''), str_to_number = (\<lambda>s. None), format_date = (\<lambda>ms. ''D'')\<rparr>
       (JObj [(''usage'', JObj [])]) (JObj [(''name'', JStr ''max'')]) =
       ([''\<newline>Account: max'', ''  No usage data yet (will populate on first API request)''], None)"
proof -
  have k: "''max'' \<notin> set object_proto_keys" by (simp add: object_proto_keys_def)
  have u: "js_get (JObj [(''usage'', JObj [])]) ''usage'' = Some (JObj [])"
    by (simp add: js_get_store_keys del: js_get.simps)
  from account_without_usage [of "[(''name'', JStr ''max'')]" "''max''" "JObj [(''usage'', JObj [])]" "[]"
      "\<lparr>num_to_string = (\<lambda>r. ''N''), str_to_number = (\<lambda>s. None), format_date = (\<lambda>ms. ''D'')\<rparr>"] k u
  show ?thesis by simp
qed

text \<open>
  C24: An account named after a member of \<open>Object.prototype\<close> (\<open>constructor\<close>,
  \<open>toString\<close>, \<open>__proto__\<close>, ...) with no usage entry is not reported as having no
  data: \<open>usage[name]\<close> finds the inherited member, and the report prints three
  windows at 0 percent with unknown resets.
\<close>

theorem proto_name_renders_windows:
  assumes "map_of kvs ''name'' = Some (JStr nm)" "nm \<in> set object_proto_keys"
    and "js_get multi ''usage'' = Some (JObj us)" "map_of us nm = None"
  shows "account_lines h multi (JObj kvs) =
           ([''\<newline>Account: '' @ nm] @ fst (window_lines h ''  Current session'' None)
              @ fst (window_lines h ''\<newline>  Current week (all models)'' None)
              @ fst (window_lines h ''\<newline>  Current week (Sonnet only)'' None), None)"
proof -
  have n: "js_get (JObj kvs) ''name'' = Some (JStr nm)"
    using assms(1) by (simp add: js_get_store_keys del: js_get.simps)
  have u: "js_get (JObj us) nm = Some (JBuiltin nm)"
    using assms(2,4) by (simp add: proto_get_def)
  show ?thesis
    using n u assms(3)
    by (simp add: account_lines_def js_member_def js_str_def js_chain_def window_lines_absent Let_def)
qed

theorem proto_name_renders_windows_witness:
  "map_of [(''name'', JStr ''constructor'')] ''name'' = Some (JStr ''constructor'')
   \<and> ''constructor'' \<in> set object_proto_keys
   \<and> js_get (JObj [(''usage'', JObj [])]) ''usage'' = Some (JObj [])
   \<and> map_of [] ''constructor'' = (None :: jsv option)
   \<and> length (fst (account_lines \<lparr>num_to_string = (\<lambda>r. ''N''), str_to_number = (\<lambda>s. None),
        format_date = (\<lambda>ms. ''D'')\<rparr> (JObj [(''usage'', JObj [])]) (JObj [(''name'', JStr ''constructor'')]))) = 10"
proof -
  have k: "''constructor'' \<in> set object_proto_keys" by (simp add: object_proto_keys_def)
  have u: "js_get (JObj [(''usage'', JObj [])]) ''usage'' = Some (JObj [])"
    by (simp add: js_get_store_keys del: js_get.simps)
  from proto_name_renders_windows [of "[(''name'', JStr ''constructor'')]" "''constructor''"
      "JObj [(''usage'', JObj [])]" "[]"
      "\<lparr>num_to_string = (\<lambda>r. ''N''), str_to_number = (\<lambda>s. None), format_date = (\<lambda>ms. ''D'')\<rparr>"] k u
  show ?thesis by (simp add: window_lines_absent)
qed

text \<open>
  C25: A store without \<open>anthropic\<close> (or without \<open>multiAccounts\<close> under it) is not
  an error for the report: it prints "No multi-account configuration found" and
  exits with status 0.
\<close>

theorem usage_no_config:
  assumes "map_of kvs ''anthropic'' = None"
  shows "usage_main h (Holds (JObj kvs)) = ([Log ''No multi-account configuration found''], 0)"
  using assms
  by (simp add: usage_main_def usage_load_auth_def js_member_def js_get_store_keys js_chain_def
           del: js_get.simps)

theorem usage_no_config_witness:
  "map_of [(''openai'', JObj [])] ''anthropic'' = (None :: jsv option)
   \<and> usage_main \<lparr>num_to_string = (\<lambda>r. ''N''), str_to_number = (\<lambda>s. None), format_date = (\<lambda>ms. ''D'')\<rparr>
       (Holds (JObj [(''openai'', JObj [])])) = ([Log ''No multi-account configuration found''], 0)"
  using usage_no_config [of "[(''openai'', JObj [])]"
      "\<lparr>num_to_string = (\<lambda>r. ''N''), str_to_number = (\<lambda>s. None), format_date = (\<lambda>ms. ''D'')\<rparr>"]
  by simp

text \<open>
  C26: A missing, unreadable or unparsable store, or one holding \<open>null\<close>, makes the
  report print "Error reading auth file:" on standard error and exit with status 1.
\<close>

theorem usage_load_failure:
  assumes "f \<in> {Missing, Unreadable, Corrupt, Holds JNull}"
  shows "usage_main h f = ([Err ''Error reading auth file:''], 1)"
  using assms by (auto simp: usage_main_def usage_load_auth_def js_member_def)

theorem usage_load_failure_witness:
  "Corrupt \<in> {Missing, Unreadable, Corrupt, Holds JNull}
   \<and> usage_main \<lparr>num_to_string = (\<lambda>r. ''N''), str_to_number = (\<lambda>s. None), format_date = (\<lambda>ms. ''D'')\<rparr>
       Corrupt = ([Err ''Error reading auth file:''], 1)"
  using usage_load_failure [of Corrupt] by simp

end
