(* ===== verification/Spec2Isabelle.thy ===== *)
theory Spec2Isabelle
  imports Runs Usage
begin

text \<open>
  \<^bold>\<open>A verification development of gaboe/anthropic-multi-account.\<close>

  \<^bold>\<open>The program.\<close> Two TypeScript scripts share one JSON file, the credential
  store \<open>~/.local/share/opencode/auth.json\<close>:
  \<^item> \<open>src/src/add-account.ts\<close> enrolls an account: it takes the account name from
    the command line, obtains a PKCE pair from a library, prints an authorization
    URL whose \<open>state\<close> carries the PKCE verifier, reads the pasted callback URL,
    extracts \<open>code\<close> and \<open>state\<close>, posts them to the token endpoint, and upserts
    the returned tokens under the account name into
    \<open>anthropic.multiAccounts.accounts\<close> of the store (\<open>loadAuth\<close>,
    \<open>saveAuth\<close>, \<open>main\<close>).
  \<^item> \<open>src/src/usage.ts\<close> renders, for every account of the store, three usage
    windows from \<open>anthropic.multiAccounts.usage\<close> as 50-cell progress bars with a
    percentage and a reset time (\<open>loadAuth\<close>, \<open>progressBar\<close>,
    \<open>formatResetTime\<close>, the top-level loop).
  \<^item> \<open>src/src/node-compat.d.ts\<close> only declares library types; it has no
    behaviour.
  The components interact through the store only: the enrollment writes the
  document, the report reads it.

  \<^bold>\<open>The library.\<close>
  \<^item> \<open>Prelude\<close>: rule collections, \<open>sbind\<close> (the exception monad on sums),
    association lists as JavaScript objects (\<open>alist_set\<close>), list lemmas.
  \<^item> \<open>Json\<close>: JavaScript values in memory (\<open>jsv\<close>), truthiness, property reads
    with prototype members (\<open>js_get\<close>, \<open>js_member\<close>, \<open>js_chain\<close>), strict-mode
    assignment (\<open>js_put\<close>), reads and assignments through a path (\<open>js_path\<close>,
    \<open>modify_at\<close>), what \<open>JSON.stringify\<close> keeps (\<open>to_json\<close>), JSON documents
    (\<open>is_json\<close>), \<open>split\<close>, \<open>join\<close> and \<open>trim\<close> on strings.
  \<^item> \<open>Store\<close>: the file as missing, unreadable, corrupt or holding a document;
    \<open>load_auth\<close> and \<open>save_auth\<close> of the enrollment script and
    \<open>usage_load_auth\<close> of the report.
  \<^item> \<open>Accounts\<close>: lines 106--130 of \<open>add-account.ts\<close>: the account record, the
    repair of the store's shape (\<open>ensure_prop\<close>), \<open>findIndex\<close>
    (\<open>find_by_name\<close>), replace-or-push (\<open>upsert_list\<close>, \<open>upsert_at\<close>), all of
    it as \<open>persist\<close>; the abstract view of a well-shaped document (\<open>obj_path\<close>,
    \<open>obj_update\<close>) and of the account list as a map from names
    (\<open>acct_lookup\<close>, \<open>acct_names\<close>).

  \<^item> \<open>Enroll\<close>: \<open>main\<close> of \<open>add-account.ts\<close> (lines 35--135) as one function
    \<open>add_account_main\<close> of its inputs (\<open>enroll_input\<close>: the argument, the PKCE
    pair, the pasted text, the URL parser, the token endpoint, the clock) and the
    file system (\<open>fs_state\<close>) to a run (\<open>enroll_run\<close>: the outcome, the URL
    shown, the requests posted, the final file system). The authorization query
    (\<open>authorize_params\<close>), the callback parsing (\<open>extract_code\<close>), the posted body
    (\<open>token_request\<close>), the store update after a successful answer
    (\<open>store_tokens\<close>) and the exit status (\<open>exit_status\<close>; rejections caught by
    \<open>main().catch\<close> end with 0) are its parts.
  \<^item> \<open>Usage\<close>: \<open>usage.ts\<close> as \<open>usage_main\<close>, from the store file to the
    printed lines and the exit status: \<open>progress_bar\<close> (cells \<open>Full\<close>,
    \<open>Half\<close>, \<open>Blank\<close>), \<open>format_reset_time\<close>, \<open>window_lines\<close>,
    \<open>account_lines\<close> and the loop \<open>render_accounts\<close>; an uncaught exception
    ends the output with status 1. Number printing and parsing and the date format
    are parameters (the record \<open>host\<close>), as they are the platform's.
  \<^item> \<open>Runs\<close>: runs of the enrollment script composed. \<open>run_all\<close> runs whole
    \<open>add_account_main\<close> calls one after another on one file system; \<open>exchanged\<close>
    says which runs reach the store (the guards of lines 37--104), and
    \<open>enroll_map\<close> is the contract of a sequence on the account list read as a
    map. \<open>store_tokens\<close> is split at its \<open>loadAuth\<close> into \<open>commit_tokens\<close>
    (lines 107--134), so that \<open>race_step\<close> can interleave the \<open>Load\<close> and
    \<open>Save\<close> actions of several processes over one file (\<open>race_run\<close>), each
    process holding the document it loaded.
  \<^item> this theory: the properties that span the two scripts.

  \<^bold>\<open>What is proved.\<close>
  \<^item> Accounts (C1--C4): on a store of the expected shape, \<open>persist\<close> succeeds
    and implements the abstract upsert while leaving the usage statistics and every
    other top-level key unchanged; the upsert refines to a map update, keeps names
    distinct and adds an entry exactly for a new name.
  \<^item> Enroll (C5--C16): the usage error; the store changes only when an account is
    added or updated; at most one request, none exactly before a code exists; the
    exact request for a callback URL; a failed exchange; success on a well-shaped
    store and on a missing or corrupt one; the exact authorization query; and the
    defects: an array store loses the account, a network error and a primitive
    store end with status 0, a \<open>#\<close> in the code corrupts the request.
  \<^item> Usage (C17--C26): the bar has 50 cells for a utilization in \<open>[0, 1]\<close> and
    the spec's examples; a negative utilization throws, one above 1 overflows the
    bar; reset times inside and outside the \<open>Date\<close> range; an account without
    statistics; an account named after an \<open>Object.prototype\<close> member is rendered
    with empty windows; a store without the subtree and an unreadable store.
  \<^item> Runs (C28--C36): any sequence of runs refines the map contract; names stay
    distinct and the list grows by the new names; N distinct names from an empty
    store give N accounts in order; re-enrollment replaces the record; the stored
    expiry; a write failure exits with 0; under every interleaving the file stays
    well shaped with distinct names, two enrollments that both load before either
    saves lose the first account, and a serial schedule equals the sequential runs.
  \<^item> Usage (C37): the bar rounds the percentage before halving, unlike the spec.
  \<^item> Here (C27): an enrollment into a missing store is then reported by the usage
    script as exactly that account, without data yet.
  No loop of the program can run forever (the loops are over finite arrays), so
  every function is total and no fuel is used.

  \<^bold>\<open>Plan.\<close> The lines the enrollment prints (the URL and messages are
  modelled as the outcome and the URL shown, not as text); the usage report read
  concurrently with an enrollment, over the schedules of \<open>Runs\<close>.

  \<^bold>\<open>Not modelled.\<close> The PKCE generator (\<open>generatePKCE\<close> of
  \<open>@openauthjs/openauth\<close>, a dependency outside the repository; the model takes
  its pair as an input), console formatting glyphs beyond the bar cells, the
  platform's JSON parser and printer (their contract \<open>parse (print v) = to_json v\<close>
  is assumed by representing the file by its parsed document), SHA-256, the
  WHATWG URL parser, the HTTP transport, and the \<open>Intl\<close> date format, which are
  libraries the sources only call.
\<close>


section \<open>Properties across the two scripts\<close>

text \<open>
  C27: The two scripts agree on the store: after an enrollment of a name into a
  missing, unreadable or corrupt store, the usage report lists exactly that account,
  reports that it has no usage data yet, and exits with status 0.
\<close>

theorem enroll_then_report:
  assumes "argv_name inp = Some nm" "nm \<noteq> []" "nm \<notin> set object_proto_keys"
    and "extract_code (parse_url inp) (js_trim (pasted inp)) = code" "code \<noteq> []"
    and "token_endpoint inp (token_request code (pkce inp)) = Response status text (Some tok)"
    and "response_ok status" "writable st" "store st \<in> {Missing, Unreadable, Corrupt}"
  shows "usage_main h (store (final (add_account_main inp st))) =
           ([Log (''\<newline>Account: '' @ nm),
             Log ''  No usage data yet (will populate on first API request)''], 0)"
proof -
  have l: "load_auth (store st) = empty_auth" using assms(9) by (auto simp: load_auth_def)
  have p: "obj_path (load_auth (store st)) accounts_path = Some (JArr [] [])"
    by (simp add: l empty_auth_def accounts_path_def)
  let ?acc = "account_json (make_account nm tok (now_ms inp))"
  have f: "store (final (add_account_main inp st)) =
             Holds (JObj [(''anthropic'', JObj [(''multiAccounts'', JObj [(''accounts'', JArr [?acc] [])])])])"
    using add_account_main_code [OF assms(1,2,4,5)] assms(6,7)
      store_tokens_shape [OF p _ assms(8), of nm tok "now_ms inp"]
    by (simp add: Let_def l empty_auth_def accounts_path_def upsert_list_def account_json_def)
  show ?thesis
    using assms(3)
    by (simp add: f usage_main_def usage_load_auth_def js_member_def js_chain_def js_iter_def
                  account_lines_def account_json_def make_account_def js_str_def proto_get_def
                  object_proto_keys_def)
qed

theorem enroll_then_report_witness:
  "argv_name demo_input = Some ''max'' \<and> ''max'' \<notin> set object_proto_keys
   \<and> extract_code (parse_url demo_input) (js_trim (pasted demo_input)) = ''abc#xyz''
   \<and> response_ok 200
   \<and> usage_main \<lparr>num_to_string = (\<lambda>r. ''N''), str_to_number = (\<lambda>s. None), format_date = (\<lambda>ms. ''D'')\<rparr>
       (store (final (add_account_main demo_input \<lparr>store = Missing, writable = True\<rparr>))) =
       ([Log ''\<newline>Account: max'', Log ''  No usage data yet (will populate on first API request)''], 0)"
proof -
  have k: "''max'' \<notin> set object_proto_keys" by (simp add: object_proto_keys_def)
  have c: "extract_code (parse_url demo_input) (js_trim (pasted demo_input)) = ''abc#xyz''"
    by (simp add: extract_code_def search_get_def)
  have r: "response_ok 200" by (simp add: response_ok_def)
  from enroll_then_report [of demo_input "''max''" "''abc#xyz''" 200 "''{}''" demo_tokens
      "\<lparr>store = Missing, writable = True\<rparr>"
      "\<lparr>num_to_string = (\<lambda>r. ''N''), str_to_number = (\<lambda>s. None), format_date = (\<lambda>ms. ''D'')\<rparr>"] k c r
  show ?thesis by simp
qed

end
